theory Spec2Isabelle
  imports Complex_Main
begin

section \<open>Strings of the source language\<close>

text \<open>
  A TypeScript string is a sequence of UTF-16 code units; a code unit is modelled as a
  natural number (below 65536 in every real string) and \<open>length\<close> counts code units, as
  \<^verbatim>\<open>.length\<close> does. An ASCII literal of the source is written \<open>js ''...''\<close>; a literal in
  an Indic script is written as the list of its code units.

  The case mappings and the Unicode categories are tables of the JavaScript runtime, not
  of this repository. They are modelled on the characters of the five languages of the
  application: ASCII, the whitespace of ECMAScript, the blocks of Devanagari, Tamil,
  Kannada and Malayalam, the zero-width joiners that occur in their spelling, and the
  rupee sign. On these, \<^verbatim>\<open>toLowerCase\<close> and \<^verbatim>\<open>toUpperCase\<close> change the ASCII letters
  only, and the punctuation and symbol characters (\<^verbatim>\<open>\p{P}\<close>, \<^verbatim>\<open>\p{S}\<close>) are those
  of ASCII, the signs of the four blocks listed in \<open>isPunctOrSymbol\<close>, and the rupee
  sign (the general categories of Unicode 14). The predicate \<open>modelled\<close> below says that a string stays within these
  characters; on other characters (cased letters and punctuation of other scripts,
  surrogate pairs) the model maps a code unit to itself and the runtime may not.
\<close>

type_synonym jsstring = "nat list"

definition js :: "string \<Rightarrow> jsstring" where
  "js s = map of_char s"

definition isDigit :: "nat \<Rightarrow> bool" where
  \<comment> \<open>\<^verbatim>\<open>\d\<close>\<close>
  "isDigit c \<longleftrightarrow> 48 \<le> c \<and> c \<le> 57"

definition isWhiteSpace :: "nat \<Rightarrow> bool" where
  \<comment> \<open>\<^verbatim>\<open>\s\<close>, and what \<^verbatim>\<open>trim\<close> strips: WhiteSpace and LineTerminator of ECMAScript\<close>
  "isWhiteSpace c \<longleftrightarrow>
     (9 \<le> c \<and> c \<le> 13) \<or> c = 32 \<or> c = 160 \<or> c = 5760 \<or> (8192 \<le> c \<and> c \<le> 8202) \<or>
     c = 8232 \<or> c = 8233 \<or> c = 8239 \<or> c = 8287 \<or> c = 12288 \<or> c = 65279"

definition isPunctOrSymbol :: "nat \<Rightarrow> bool" where
  \<comment> \<open>\<^verbatim>\<open>[\p{P}\p{S}]\<close> under the flag \<^verbatim>\<open>u\<close>: the punctuation and symbols of ASCII;
      the danda, the double danda and the abbreviation sign of Devanagari; the signs
      U+0BF3 to U+0BFA of Tamil; the siddham of Kannada; the para and the date mark of
      Malayalam; the rupee sign U+20B9\<close>
  "isPunctOrSymbol c \<longleftrightarrow>
     (33 \<le> c \<and> c \<le> 47) \<or> (58 \<le> c \<and> c \<le> 64) \<or> (91 \<le> c \<and> c \<le> 96) \<or>
     (123 \<le> c \<and> c \<le> 126) \<or> c = 2404 \<or> c = 2405 \<or> c = 2416 \<or>
     (3059 \<le> c \<and> c \<le> 3066) \<or> c = 3204 \<or> c = 3407 \<or> c = 3449 \<or> c = 8377"

definition toLowerUnit :: "nat \<Rightarrow> nat" where
  "toLowerUnit c = (if 65 \<le> c \<and> c \<le> 90 then c + 32 else c)"

definition toUpperUnit :: "nat \<Rightarrow> nat" where
  "toUpperUnit c = (if 97 \<le> c \<and> c \<le> 122 then c - 32 else c)"

definition toLowerCase :: "jsstring \<Rightarrow> jsstring" where
  "toLowerCase s = map toLowerUnit s"

definition toUpperCase :: "jsstring \<Rightarrow> jsstring" where
  "toUpperCase s = map toUpperUnit s"



definition trim :: "jsstring \<Rightarrow> jsstring" where
  "trim s = rev (dropWhile isWhiteSpace (rev (dropWhile isWhiteSpace s)))"

fun startsWith :: "jsstring \<Rightarrow> jsstring \<Rightarrow> bool" where
  "startsWith text [] = True"
| "startsWith [] (k # ks) = False"
| "startsWith (c # cs) (k # ks) = (c = k \<and> startsWith cs ks)"

fun includes_js :: "jsstring \<Rightarrow> jsstring \<Rightarrow> bool" where
  \<comment> \<open>\<^verbatim>\<open>text.includes(keyword)\<close>\<close>
  "includes_js [] keyword = (keyword = [])"
| "includes_js (c # cs) keyword = (startsWith (c # cs) keyword \<or> includes_js cs keyword)"

fun split :: "nat \<Rightarrow> jsstring \<Rightarrow> jsstring list" where
  \<comment> \<open>\<^verbatim>\<open>s.split(sep)\<close> for a separator of one code unit\<close>
  "split sep [] = [[]]"
| "split sep (c # cs) =
     (if c = sep then [] # split sep cs
      else (case split sep cs of [] \<Rightarrow> [[c]] | t # ts \<Rightarrow> (c # t) # ts))"

definition splitFirst :: "nat \<Rightarrow> jsstring \<Rightarrow> jsstring" where
  \<comment> \<open>\<^verbatim>\<open>s.split(sep)[0]\<close>\<close>
  "splitFirst sep s = takeWhile (\<lambda>c. c \<noteq> sep) s"

function replaceSpaces :: "jsstring \<Rightarrow> jsstring \<Rightarrow> jsstring" where
  \<comment> \<open>\<^verbatim>\<open>s.replace(/\s+/g, r)\<close>: every maximal run of whitespace becomes \<open>r\<close>\<close>
  "replaceSpaces r [] = []"
| "replaceSpaces r (c # cs) =
     (if isWhiteSpace c then r @ replaceSpaces r (dropWhile isWhiteSpace cs)
      else c # replaceSpaces r cs)"
  by pat_completeness auto
termination
  by (relation "measure (\<lambda>(r, s). length s)") (auto simp: le_imp_less_Suc length_dropWhile_le)

definition removeDigits :: "jsstring \<Rightarrow> jsstring" where
  \<comment> \<open>\<^verbatim>\<open>s.replace(/\d+/g, '')\<close>\<close>
  "removeDigits s = filter (\<lambda>c. \<not> isDigit c) s"

definition digitRun :: "jsstring \<Rightarrow> jsstring option" where
  \<comment> \<open>\<^verbatim>\<open>s.match(/(\d+)/)\<close>: the first maximal run of digits\<close>
  "digitRun s =
     (case dropWhile (\<lambda>c. \<not> isDigit c) s of
        [] \<Rightarrow> None
      | d # ds \<Rightarrow> Some (takeWhile isDigit (d # ds)))"

definition digitsVal :: "jsstring \<Rightarrow> nat" where
  \<comment> \<open>the number a string of decimal digits denotes\<close>
  "digitsVal ds = foldl (\<lambda>acc c. 10 * acc + (c - 48)) 0 ds"

fun ciStartsWith :: "jsstring \<Rightarrow> jsstring \<Rightarrow> bool" where
  \<comment> \<open>a pattern of literal characters under the flag \<^verbatim>\<open>i\<close>: code units are compared after
      the canonicalisation of the flag, which is \<^verbatim>\<open>toUpperCase\<close>\<close>
  "ciStartsWith text [] = True"
| "ciStartsWith [] (k # ks) = False"
| "ciStartsWith (c # cs) (k # ks) = (toUpperUnit c = toUpperUnit k \<and> ciStartsWith cs ks)"

fun replaceAll_gi :: "jsstring \<Rightarrow> jsstring \<Rightarrow> jsstring" where
  \<comment> \<open>\<^verbatim>\<open>text.replace(new RegExp(keyword, 'gi'), '')\<close> for a keyword without regular
      expression metacharacters: the matches are removed from left to right\<close>
  "replaceAll_gi keyword [] = []"
| "replaceAll_gi keyword (c # cs) =
     (if keyword \<noteq> [] \<and> ciStartsWith (c # cs) keyword
      then replaceAll_gi keyword (drop (length keyword - 1) cs)
      else c # replaceAll_gi keyword cs)"

definition literalPattern :: "jsstring \<Rightarrow> bool" where
  \<comment> \<open>no code unit of the pattern is a metacharacter of regular expressions
      (backslash, caret, dollar, dot, bar, question mark, star, plus, parentheses,
      brackets, braces): \<^verbatim>\<open>new RegExp(pattern)\<close> does not throw and matches the text
      of the pattern\<close>
  "literalPattern k \<longleftrightarrow>
     (\<forall>c \<in> set k. c \<notin> set [92, 94, 36, 46, 124, 63, 42, 43, 40, 41, 91, 93, 123, 125])"

fun mkSet :: "'a list \<Rightarrow> 'a list" where
  \<comment> \<open>\<^verbatim>\<open>new Set(xs)\<close>: the distinct elements in the order of their first occurrence\<close>
  "mkSet [] = []"
| "mkSet (x # xs) = x # mkSet (filter (\<lambda>y. y \<noteq> x) xs)"

section \<open>The data model\<close>

text \<open>
  The interface \<^verbatim>\<open>Product\<close>. An optional field is an \<open>option\<close>; a \<^verbatim>\<open>number\<close> is a
  real, except the stock, which is a count.
\<close>

record Product =
  id_p :: jsstring
  name :: jsstring
  name_en :: jsstring
  name_kn :: "jsstring option"
  name_ml :: "jsstring option"
  name_ta :: "jsstring option"
  name_hi :: "jsstring option"
  price :: real
  category :: jsstring
  stock :: int
  barcode :: "jsstring option"
  description :: "jsstring option"


text \<open>The object \<^verbatim>\<open>parseVoiceCommand\<close> returns: a \<^verbatim>\<open>type\<close> and five optional fields
  (\<open>method_c\<close> is the field \<^verbatim>\<open>method\<close>, \<open>id_p\<close> above the field \<^verbatim>\<open>id\<close>).\<close>

datatype CommandType =
  Add | Remove | Clear | Checkout | Pay_method | Cash_amount | Pay_now | Print_receipt | Unknown

datatype Action =
  invalid_input | empty_transcript | clear_cart | open_payment | confirm_payment |
  select_method | set_cash_amount | remove_last | remove_product | product_not_found

datatype PaymentMethod = Cash | Card | Digital

record VoiceCommand =
  type :: CommandType
  product :: "Product option"
  quantity :: "nat option"
  action :: "Action option"
  method_c :: "PaymentMethod option"
  amount :: "real option"

definition command :: "CommandType \<Rightarrow> VoiceCommand" where
  \<comment> \<open>the object literal \<^verbatim>\<open>{ type: t }\<close>; the other fields are set by record update\<close>
  "command t = \<lparr>type = t, product = None, quantity = None, action = None,
                 method_c = None, amount = None\<rparr>"

datatype js_error = TypeError

text \<open>The value of \<^verbatim>\<open>getCommandKeywords\<close>: ten keyword lists and the number words, in
  the order of the object literal (\<^verbatim>\<open>Object.entries\<close> follows it).\<close>

record CommandKeywords =
  clear :: "jsstring list"
  checkout :: "jsstring list"
  payNow :: "jsstring list"
  cash :: "jsstring list"
  card_kw :: "jsstring list"
  digital :: "jsstring list"
  received :: "jsstring list"
  remove :: "jsstring list"
  removeLast :: "jsstring list"
  add :: "jsstring list"
  numbers :: "(jsstring \<times> nat) list"

section \<open>The product resolver\<close>

definition languageOr :: "jsstring option \<Rightarrow> jsstring option \<Rightarrow> jsstring" where
  \<comment> \<open>\<^verbatim>\<open>language || i18n.language || 'en'\<close>: \<^verbatim>\<open>undefined\<close> and the empty string are
      falsy. \<open>i18n_language\<close> is the ambient \<^verbatim>\<open>i18n.language\<close> of the application.\<close>
  "languageOr language i18n_language =
     (case language of
        Some (c # cs) \<Rightarrow> c # cs
      | _ \<Rightarrow> (case i18n_language of Some (d # ds) \<Rightarrow> d # ds | _ \<Rightarrow> js ''en''))"

definition nameField :: "Product \<Rightarrow> jsstring \<Rightarrow> jsstring option" where
  \<comment> \<open>\<^verbatim>\<open>product[`name_${lang}`]\<close>\<close>
  "nameField p lang =
     (if lang = js ''en'' then Some (name_en p)
      else if lang = js ''kn'' then name_kn p
      else if lang = js ''ml'' then name_ml p
      else if lang = js ''ta'' then name_ta p
      else if lang = js ''hi'' then name_hi p
      else None)"

definition getProductNameInLanguage ::
  "jsstring option \<Rightarrow> Product \<Rightarrow> jsstring option \<Rightarrow> jsstring" where
  "getProductNameInLanguage i18n_language p language =
     (let lang = splitFirst 45 (languageOr language i18n_language) in
      case nameField p lang of
        Some (c # cs) \<Rightarrow> c # cs
      | _ \<Rightarrow> (if name_en p \<noteq> [] then name_en p else name p))"

definition normalize :: "jsstring \<Rightarrow> jsstring" where
  "normalize text =
     trim (replaceSpaces [32]
       (map (\<lambda>c. if isPunctOrSymbol c then 32 else c) (toLowerCase text)))"

definition tokenSet :: "jsstring \<Rightarrow> jsstring list" where
  \<comment> \<open>a \<^verbatim>\<open>Set\<close> is the list of its elements in insertion order\<close>
  "tokenSet str = mkSet (filter (\<lambda>t. t \<noteq> []) (split 32 (normalize str)))"

definition jaccard :: "jsstring list \<Rightarrow> jsstring list \<Rightarrow> real" where
  "jaccard a b =
     (let inter = mkSet (filter (\<lambda>x. x \<in> set b) a);
          union = mkSet (a @ b)
      in if length union = 0 then 0 else real (length inter) / real (length union))"


definition allNames :: "Product \<Rightarrow> jsstring list" where
  \<comment> \<open>\<^verbatim>\<open>[p.name_en, p.name_kn, p.name_ml, p.name_ta, p.name_hi].filter(Boolean)\<close>\<close>
  "allNames p =
     concat (map (\<lambda>n. case n of Some (c # cs) \<Rightarrow> [c # cs] | _ \<Rightarrow> [])
       [Some (name_en p), name_kn p, name_ml p, name_ta p, name_hi p])"

definition barcodeMatch :: "jsstring \<Rightarrow> Product \<Rightarrow> bool" where
  \<comment> \<open>stage 1, the predicate of \<^verbatim>\<open>find\<close>\<close>
  "barcodeMatch maybeBarcode p =
     (case barcode p of
        Some (c # cs) \<Rightarrow>
          toUpperCase (c # cs) = maybeBarcode \<or> includes_js (toUpperCase (c # cs)) maybeBarcode
      | _ \<Rightarrow> False)"

definition exactMatch :: "jsstring option \<Rightarrow> jsstring \<Rightarrow> jsstring \<Rightarrow> Product \<Rightarrow> bool" where
  \<comment> \<open>stage 2\<close>
  "exactMatch i18n_language lang normalizedName p =
     (normalize (getProductNameInLanguage i18n_language p (Some lang)) = normalizedName)"

definition containsMatch :: "jsstring option \<Rightarrow> jsstring \<Rightarrow> jsstring \<Rightarrow> Product \<Rightarrow> bool" where
  \<comment> \<open>stage 3\<close>
  "containsMatch i18n_language lang normalizedName p =
     (let normalizedProductName = normalize (getProductNameInLanguage i18n_language p (Some lang))
      in includes_js normalizedProductName normalizedName \<or>
         includes_js normalizedName normalizedProductName)"

definition anyLanguageMatch :: "jsstring \<Rightarrow> Product \<Rightarrow> bool" where
  \<comment> \<open>stage 4\<close>
  "anyLanguageMatch normalizedName p =
     (\<exists>n \<in> set (allNames p).
        let normalized = normalize n
        in normalized = normalizedName \<or> includes_js normalized normalizedName \<or>
           includes_js normalizedName normalized)"

fun bestScore :: "(Product \<times> real) list \<Rightarrow> (Product \<times> real) option \<Rightarrow> (Product \<times> real) option" where
  \<comment> \<open>the loop \<^verbatim>\<open>if (!best || score > best.score) best = { p, score }\<close> over the
      candidates with their scores, from the value of \<^verbatim>\<open>best\<close> before the loop\<close>
  "bestScore [] best = best"
| "bestScore ((p, score) # rest) best =
     bestScore rest
       (case best of
          None \<Rightarrow> Some (p, score)
        | Some (bp, bscore) \<Rightarrow> if score > bscore then Some (p, score) else best)"

definition accept :: "(Product \<times> real) option \<Rightarrow> Product option" where
  \<comment> \<open>\<^verbatim>\<open>if (best && best.score >= 0.4) return best.p\<close>\<close>
  "accept best =
     (case best of None \<Rightarrow> None | Some (p, score) \<Rightarrow> if score \<ge> 4 / 10 then Some p else None)"

definition currentScore :: "jsstring option \<Rightarrow> jsstring \<Rightarrow> jsstring list \<Rightarrow> Product \<Rightarrow> real" where
  \<comment> \<open>stage 5: \<^verbatim>\<open>score\<close> of a product in the loop\<close>
  "currentScore i18n_language lang qTokens p =
     jaccard qTokens (tokenSet (getProductNameInLanguage i18n_language p (Some lang)))"

definition fuzzyCurrent ::
  "jsstring option \<Rightarrow> Product list \<Rightarrow> jsstring \<Rightarrow> jsstring list \<Rightarrow> (Product \<times> real) option" where
  \<comment> \<open>stage 5: \<^verbatim>\<open>best\<close> after the loop over the products\<close>
  "fuzzyCurrent i18n_language products lang qTokens =
     bestScore (map (\<lambda>p. (p, currentScore i18n_language lang qTokens p)) products) None"

definition fuzzyAll :: "Product list \<Rightarrow> jsstring list \<Rightarrow> (Product \<times> real) option" where
  \<comment> \<open>stage 6: \<^verbatim>\<open>best\<close> after the nested iteration over the products and their names\<close>
  "fuzzyAll products qTokens =
     bestScore
       (concat (map (\<lambda>p. map (\<lambda>n. (p, jaccard qTokens (tokenSet n))) (allNames p)) products))
       None"

definition findProductByName ::
  "jsstring option \<Rightarrow> Product list \<Rightarrow> jsstring \<Rightarrow> jsstring option \<Rightarrow> Product option" where
  \<comment> \<open>\<open>products\<close> is the field \<^verbatim>\<open>this.products\<close>, the catalog; \<open>name0\<close> is the
      parameter \<^verbatim>\<open>name\<close>\<close>
  "findProductByName i18n_language products name0 language =
     (if name0 = [] \<or> length (trim name0) = 0 then None
      else
        let lang = splitFirst 45 (languageOr language i18n_language);
            normalizedName = normalize name0
        in
        if normalizedName = [] \<or> length normalizedName < 2 then None
        else if products = [] then None
        else
          case find (barcodeMatch (toUpperCase (replaceSpaces [95] name0))) products of
            Some p \<Rightarrow> Some p
          | None \<Rightarrow>
          (case find (exactMatch i18n_language lang normalizedName) products of
            Some p \<Rightarrow> Some p
          | None \<Rightarrow>
          (case find (containsMatch i18n_language lang normalizedName) products of
            Some p \<Rightarrow> Some p
          | None \<Rightarrow>
          (case find (anyLanguageMatch normalizedName) products of
            Some p \<Rightarrow> Some p
          | None \<Rightarrow>
          (let qTokens = tokenSet normalizedName in
           case accept (fuzzyCurrent i18n_language products lang qTokens) of
            Some p \<Rightarrow> Some p
          | None \<Rightarrow> accept (fuzzyAll products qTokens))))))"

section \<open>The keyword tables\<close>

definition keywords_en :: CommandKeywords where
  "keywords_en = \<lparr>
     clear =
       [js ''clear cart'',
        js ''empty cart'',
        js ''start over'',
        js ''clear''],
     checkout =
       [js ''checkout'',
        js ''check out'',
        js ''proceed to payment'',
        js ''go to payment'',
        js ''open payment'',
        js ''bill''],
     payNow =
       [js ''pay now'',
        js ''confirm payment'',
        js ''complete payment'',
        js ''pay'',
        js ''confirm''],
     cash =
       [js ''pay with cash'',
        js ''cash payment'',
        js ''cash'',
        js ''cash mode''],
     card_kw =
       [js ''pay with card'',
        js ''card payment'',
        js ''credit card'',
        js ''debit card'',
        js ''card''],
     digital =
       [js ''digital payment'',
        js ''upi'',
        js ''wallet'',
        js ''digital'',
        js ''phonepe'',
        js ''gpay''],
     received =
       [js ''amount received'',
        js ''cash received'',
        js ''received'',
        js ''cash'',
        js ''amount''],
     remove =
       [js ''remove'',
        js ''delete'',
        js ''take out''],
     removeLast =
       [js ''remove last'',
        js ''delete last'',
        js ''undo last'',
        js ''undo''],
     add =
       [js ''add'',
        js ''get'',
        js ''buy'',
        js ''take''],
     numbers =
       [(js ''one'', 1),
        (js ''two'', 2),
        (js ''three'', 3),
        (js ''four'', 4),
        (js ''five'', 5),
        (js ''six'', 6),
        (js ''seven'', 7),
        (js ''eight'', 8),
        (js ''nine'', 9),
        (js ''ten'', 10)]
   \<rparr>"

definition keywords_hi :: CommandKeywords where
  "keywords_hi = \<lparr>
     clear =
       [[2325, 2366, 2352, 2381, 2335, 32, 2360, 2366, 2347, 32, 2325, 2352, 2379],
        [2326, 2366, 2354, 2368, 32, 2325, 2352, 2379],
        [2360, 2366, 2347, 32, 2325, 2352, 2379],
        [2361, 2335, 2366, 2323]],
     checkout =
       [[2330, 2375, 2325, 2310, 2313, 2335],
        [2348, 2367, 2354],
        [2349, 2369, 2327, 2340, 2366, 2344],
        [2346, 2375, 2350, 2375, 2306, 2335],
        [2348, 2367, 2354, 32, 2348, 2344, 2366, 2323]],
     payNow =
       [[2309, 2349, 2368, 32, 2349, 2369, 2327, 2340, 2366, 2344, 32, 2325, 2352, 2379],
        [2349, 2369, 2327, 2340, 2366, 2344, 32, 2325, 2352, 2379],
        [2346, 2375, 32, 2325, 2352, 2379],
        [2325, 2344, 2381, 2347, 2352, 2381, 2350, 32, 2325, 2352, 2379]],
     cash =
       [[2344, 2325, 2342],
        [2325, 2376, 2358],
        [2344, 2325, 2342, 32, 2349, 2369, 2327, 2340, 2366, 2344],
        [2325, 2376, 2358, 32, 2346, 2375, 2350, 2375, 2306, 2335]],
     card_kw =
       [[2325, 2366, 2352, 2381, 2337],
        [2325, 2366, 2352, 2381, 2337, 32, 2346, 2375, 2350, 2375, 2306, 2335],
        [2325, 2381, 2352, 2375, 2337, 2367, 2335, 32, 2325, 2366, 2352, 2381, 2337]],
     digital =
       [[2337, 2367, 2332, 2367, 2335, 2354],
        [2351, 2370, 2346, 2368, 2310, 2312],
        [2357, 2377, 2354, 2375, 2335],
        [2347, 2379, 2344, 2346, 2375],
        [2332, 2368, 2346, 2375]],
     received =
       [[2350, 2367, 2354, 2366],
        [2346, 2381, 2352, 2366, 2346, 2381, 2340],
        [2352, 2369, 2346, 2319, 32, 2350, 2367, 2354, 2375],
        [2325, 2376, 2358, 32, 2350, 2367, 2354, 2366],
        [2352, 2366, 2358, 2367]],
     remove =
       [[2361, 2335, 2366, 2323],
        [2344, 2367, 2325, 2366, 2354, 2379],
        [2337, 2367, 2354, 2368, 2335, 32, 2325, 2352, 2379]],
     removeLast =
       [[2310, 2326, 2367, 2352, 2368, 32, 2361, 2335, 2366, 2323],
        [2346, 2367, 2331, 2354, 2366, 32, 2361, 2335, 2366, 2323],
        [2309, 2344, 2337, 2370]],
     add =
       [[2332, 2379, 2337, 2364, 2379],
        [2354, 2379],
        [2326, 2352, 2368, 2342, 2379],
        [2342, 2379]],
     numbers =
       [([2319, 2325], 1),
        ([2342, 2379], 2),
        ([2340, 2368, 2344], 3),
        ([2330, 2366, 2352], 4),
        ([2346, 2366, 2306, 2330], 5),
        ([2331, 2361], 6),
        ([2360, 2366, 2340], 7),
        ([2310, 2336], 8),
        ([2344, 2380], 9),
        ([2342, 2360], 10)]
   \<rparr>"

definition keywords_kn :: CommandKeywords where
  "keywords_kn = \<lparr>
     clear =
       [[3221, 3262, 3248, 3277, 3231, 3277, 32, 3256, 3277, 3242, 3255, 3277, 3231],
        [3222, 3262, 3250, 3263, 32, 3246, 3262, 3233, 3263],
        [3256, 3277, 3242, 3255, 3277, 3231],
        [3236, 3270, 3223, 3270, 3238, 3265, 3257, 3262, 3221, 3263]],
     checkout =
       [[3226, 3270, 3221, 3277, 3220, 3231, 3277],
        [3244, 3263, 3250, 3277],
        [3242, 3262, 3253, 3236, 3263],
        [3242, 3271, 3246, 3270, 3202, 3231, 3277],
        [3244, 3263, 3250, 3277, 32, 3246, 3262, 3233, 3263]],
     payNow =
       [[3208, 3223, 32, 3242, 3262, 3253, 3236, 3263, 3256, 3263],
        [3242, 3262, 3253, 3236, 3263, 3256, 3263],
        [3242, 3271, 32, 3246, 3262, 3233, 3263],
        [3240, 3263, 3248, 3277, 3239, 3248, 3263, 3256, 3263]],
     cash =
       [[3240, 3223, 3238, 3265],
        [3221, 3277, 3247, 3262, 3254, 3277],
        [3240, 3223, 3238, 3265, 32, 3242, 3262, 3253, 3236, 3263],
        [3221, 3277, 3247, 3262, 3254, 3277, 32, 3242, 3271, 3246, 3270, 3202, 3231, 3277]],
     card_kw =
       [[3221, 3262, 3248, 3277, 3233, 3277],
        [3221, 3262, 3248, 3277, 3233, 3277, 32, 3242, 3262, 3253, 3236, 3263],
        [3221, 3277, 3248, 3270, 3233, 3263, 3231, 3277, 32, 3221, 3262, 3248, 3277, 3233, 3277]],
     digital =
       [[3233, 3263, 3228, 3263, 3231, 3250, 3277],
        [3247, 3265, 3242, 3263, 3216],
        [3253, 3262, 3250, 3270, 3231, 3277],
        [3243, 3275, 3240, 3277, 3242, 3270],
        [3228, 3263, 3242, 3270]],
     received =
       [[3256, 3263, 3221, 3277, 3221, 3263, 3236, 3265],
        [3242, 3277, 3248, 3262, 3242, 3277, 3236],
        [3248, 3266, 3242, 3262, 3247, 3263, 32, 3256, 3263, 3221, 3277, 3221, 3263, 3236, 3265],
        [3221, 3277, 3247, 3262, 3254, 3277, 32, 3256, 3263, 3221, 3277, 3221, 3263, 3236, 3265],
        [3246, 3274, 3236, 3277, 3236]],
     remove =
       [[3236, 3270, 3223, 3270, 3238, 3265, 3257, 3262, 3221, 3263],
        [3257, 3274, 3248, 3236, 3270, 3223, 3270, 3247, 3263, 3248, 3263],
        [3233, 3263, 3250, 3264, 3231, 3277, 32, 3246, 3262, 3233, 3263]],
     removeLast =
       [[3221, 3274, 3240, 3270, 3247, 3238, 3240, 3277, 3240, 3265, 32, 3236, 3270, 3223, 3270, 3238, 3265, 3257, 3262, 3221, 3263],
        [3257, 3263, 3202, 3238, 3263, 3240, 3238, 3240, 3277, 3240, 3265, 32, 3236, 3270, 3223, 3270, 3238, 3265, 3257, 3262, 3221, 3263],
        [3205, 3240, 3277, 3233, 3266]],
     add =
       [[3256, 3271, 3248, 3263, 3256, 3263],
        [3236, 3270, 3223, 3270, 3238, 3265, 3221, 3274, 3251, 3277, 3251, 3263],
        [3222, 3248, 3264, 3238, 3263, 3256, 3263],
        [3221, 3274, 3233, 3263]],
     numbers =
       [([3218, 3202, 3238, 3265], 1),
        ([3214, 3248, 3233, 3265], 2),
        ([3246, 3266, 3248, 3265], 3),
        ([3240, 3262, 3250, 3277, 3221, 3265], 4),
        ([3216, 3238, 3265], 5),
        ([3206, 3248, 3265], 6),
        ([3215, 3251, 3265], 7),
        ([3214, 3202, 3231, 3265], 8),
        ([3218, 3202, 3244, 3236, 3277, 3236, 3265], 9),
        ([3257, 3236, 3277, 3236, 3265], 10)]
   \<rparr>"

definition keywords_ml :: CommandKeywords where
  "keywords_ml = \<lparr>
     clear =
       [[3349, 3390, 3452, 3359, 3405, 3359, 3405, 32, 3381, 3405, 3375, 3349, 3405, 3364, 3374, 3390, 3349, 3405, 3349, 3393, 3349],
        [3382, 3394, 3368, 3405, 3375, 3374, 3390, 3349, 3405, 3349, 3393, 3349],
        [3381, 3405, 3375, 3349, 3405, 3364, 3374, 3390, 3349, 3405, 3349, 3393, 3349],
        [3368, 3392, 3349, 3405, 3349, 3330, 3354, 3398, 3375, 3405, 3375, 3393, 3349]],
     checkout =
       [[3354, 3398, 3349, 3405, 3349, 3405, 8204, 3348, 3359, 3405, 3359, 3405],
        [3372, 3391, 3453],
        [3370, 3399, 3375, 3405, 8204, 3374, 3398, 3368, 3405, 3377, 3405],
        [3372, 3391, 3453, 32, 3354, 3398, 3375, 3405, 3375, 3393, 3349]],
     payNow =
       [[3335, 3370, 3405, 3370, 3403, 3454, 32, 3370, 3363, 3374, 3359, 3375, 3405, 3349, 3405, 3349, 3393, 3349],
        [3370, 3363, 3374, 3359, 3375, 3405, 3349, 3405, 3349, 3393, 3349],
        [3370, 3399, 32, 3354, 3398, 3375, 3405, 3375, 3393, 3349],
        [3384, 3405, 3365, 3391, 3376, 3392, 3349, 3376, 3391, 3349, 3405, 3349, 3393, 3349]],
     cash =
       [[3370, 3363, 3330],
        [3349, 3390, 3383, 3405],
        [3370, 3363, 3330, 32, 3370, 3399, 3375, 3405, 8204, 3374, 3398, 3368, 3405, 3377, 3405],
        [3349, 3390, 3383, 3405, 32, 3370, 3399, 3375, 3405, 8204, 3374, 3398, 3368, 3405, 3377, 3405]],
     card_kw =
       [[3349, 3390, 3452, 3361, 3405],
        [3349, 3390, 3452, 3361, 3405, 32, 3370, 3399, 3375, 3405, 8204, 3374, 3398, 3368, 3405, 3377, 3405],
        [3349, 3405, 3376, 3398, 3361, 3391, 3377, 3405, 3377, 3405, 32, 3349, 3390, 3452, 3361, 3405]],
     digital =
       [[3361, 3391, 3356, 3391, 3377, 3405, 3377, 3453],
        [3375, 3393, 3370, 3391, 3344],
        [3381, 3390, 3378, 3377, 3405, 3377, 3405],
        [3371, 3403, 3450, 3370, 3398],
        [3356, 3391, 3370, 3398]],
     received =
       [[3378, 3373, 3391, 3354, 3405, 3354, 3393],
        [3370, 3405, 3376, 3390, 3370, 3405, 3364, 3330],
        [3376, 3394, 3370, 32, 3378, 3373, 3391, 3354, 3405, 3354, 3393],
        [3349, 3390, 3383, 3405, 32, 3378, 3373, 3391, 3354, 3405, 3354, 3393],
        [3364, 3393, 3349]],
     remove =
       [[3368, 3392, 3349, 3405, 3349, 3330, 3354, 3398, 3375, 3405, 3375, 3393, 3349],
        [3370, 3393, 3377, 3364, 3405, 3364, 3398, 3359, 3393, 3349, 3405, 3349, 3393, 3349],
        [3361, 3391, 3378, 3392, 3377, 3405, 3377, 3405, 32, 3354, 3398, 3375, 3405, 3375, 3393, 3349]],
     removeLast =
       [[3333, 3381, 3384, 3390, 3368, 3364, 3405, 3364, 3399, 3364, 3405, 32, 3368, 3392, 3349, 3405, 3349, 3330, 3354, 3398, 3375, 3405, 3375, 3393, 3349],
        [3374, 3393, 3374, 3405, 3370, 3364, 3405, 3364, 3399, 3364, 3405, 32, 3368, 3392, 3349, 3405, 3349, 3330, 3354, 3398, 3375, 3405, 3375, 3393, 3349],
        [3333, 3450, 3361, 3394]],
     add =
       [[3354, 3399, 3452, 3349, 3405, 3349, 3393, 3349],
        [3342, 3359, 3393, 3349, 3405, 3349, 3393, 3349],
        [3381, 3390, 3353, 3405, 3353, 3393, 3349],
        [3349, 3402, 3359, 3393, 3349, 3405, 3349, 3393, 3349]],
     numbers =
       [([3346, 3368, 3405, 3368, 3405], 1),
        ([3376, 3363, 3405, 3359, 3405], 2),
        ([3374, 3394, 3368, 3405, 3368, 3405], 3),
        ([3368, 3390, 3378, 3405], 4),
        ([3333, 3358, 3405, 3354, 3405], 5),
        ([3334, 3377, 3405], 6),
        ([3343, 3380, 3405], 7),
        ([3342, 3359, 3405, 3359, 3405], 8),
        ([3346, 3374, 3405, 3370, 3364, 3405], 9),
        ([3370, 3364, 3405, 3364, 3405], 10)]
   \<rparr>"

definition keywords_ta :: CommandKeywords where
  "keywords_ta = \<lparr>
     clear =
       [[2965, 3006, 2992, 3021, 2975, 3021, 2975, 3016, 32, 2949, 2996, 3007, 2965, 3021, 2965],
        [2997, 3014, 2993, 3009, 2990, 3016, 2991, 3006, 2965, 3021, 2965],
        [2949, 2996, 3007],
        [2984, 3008, 2965, 3021, 2965]],
     checkout =
       [[2970, 3014, 2965, 3021, 2949, 2997, 3009, 2975, 3021],
        [2986, 3007, 2994, 3021],
        [2965, 2975, 3021, 2975, 2979, 2990, 3021],
        [2986, 3007, 2994, 3021, 32, 2970, 3014, 2991, 3021]],
     payNow =
       [[2951, 2986, 3021, 2986, 3019, 2980, 3009, 32, 2986, 2979, 2990, 3021, 32, 2970, 3014, 2994, 3009, 2980, 3021, 2980],
        [2986, 2979, 2990, 3021, 32, 2970, 3014, 2994, 3009, 2980, 3021, 2980],
        [2986, 3015, 32, 2970, 3014, 2991, 3021],
        [2953, 2993, 3009, 2980, 3007, 2986, 3021, 2986, 2975, 3009, 2980, 3021, 2980]],
     cash =
       [[2986, 2979, 2990, 3021],
        [2965, 3015, 2999, 3021],
        [2986, 2979, 2990, 3021, 32, 2965, 2975, 3021, 2975, 2979, 2990, 3021],
        [2965, 3015, 2999, 3021, 32, 2986, 3015, 2990, 3014, 2979, 3021, 2975, 3021]],
     card_kw =
       [[2965, 3006, 2992, 3021, 2975, 3009],
        [2965, 3006, 2992, 3021, 2975, 3009, 32, 2965, 2975, 3021, 2975, 2979, 2990, 3021],
        [2965, 3007, 2992, 3014, 2975, 3007, 2975, 3021, 32, 2965, 3006, 2992, 3021, 2975, 3009]],
     digital =
       [[2975, 3007, 2972, 3007, 2975, 3021, 2975, 2994, 3021],
        [2991, 3009, 2986, 3007, 2960],
        [2997, 3006, 2994, 2975, 3021],
        [2947, 2986, 3019, 2985, 3021, 2986, 3015],
        [2972, 3007, 2986, 3015]],
     received =
       [[2965, 3007, 2975, 3016, 2980, 3021, 2980, 2980, 3009],
        [2986, 3014, 2993, 2986, 3021, 2986, 2975, 3021, 2975, 2980, 3009],
        [2992, 3010, 2986, 3006, 2991, 3021, 32, 2965, 3007, 2975, 3016, 2980, 3021, 2980, 2980, 3009],
        [2965, 3015, 2999, 3021, 32, 2965, 3007, 2975, 3016, 2980, 3021, 2980, 2980, 3009],
        [2980, 3018, 2965, 3016]],
     remove =
       [[2984, 3008, 2965, 3021, 2965],
        [2997, 3014, 2995, 3007, 2991, 3015, 32, 2958, 2975, 3009],
        [2975, 3007, 2994, 3008, 2975, 3021, 32, 2970, 3014, 2991, 3021]],
     removeLast =
       [[2965, 2975, 3016, 2970, 3007, 2991, 3016, 32, 2984, 3008, 2965, 3021, 2965],
        [2990, 3009, 2984, 3021, 2980, 3016, 2991, 2980, 3016, 32, 2984, 3008, 2965, 3021, 2965],
        [2949, 2985, 3021, 2975, 3010]],
     add =
       [[2970, 3015, 2992, 3021],
        [2958, 2975, 3009],
        [2997, 3006, 2969, 3021, 2965],
        [2965, 3018, 2975, 3009]],
     numbers =
       [([2962, 2985, 3021, 2993, 3009], 1),
        ([2951, 2992, 2979, 3021, 2975, 3009], 2),
        ([2990, 3010, 2985, 3021, 2993, 3009], 3),
        ([2984, 3006, 2985, 3021, 2965, 3009], 4),
        ([2960, 2984, 3021, 2980, 3009], 5),
        ([2950, 2993, 3009], 6),
        ([2959, 2996, 3009], 7),
        ([2958, 2975, 3021, 2975, 3009], 8),
        ([2962, 2985, 3021, 2986, 2980, 3009], 9),
        ([2986, 2980, 3021, 2980, 3009], 10)]
   \<rparr>"

definition inheritedKeys :: "jsstring list" where
  \<comment> \<open>the properties every object literal inherits from \<^verbatim>\<open>Object.prototype\<close>; each
      holds a function or an object, which is truthy\<close>
  "inheritedKeys =
     [js ''constructor'', js ''__proto__'', js ''hasOwnProperty'', js ''isPrototypeOf'',
      js ''propertyIsEnumerable'', js ''toLocaleString'', js ''toString'', js ''valueOf'',
      js ''__defineGetter__'', js ''__defineSetter__'', js ''__lookupGetter__'',
      js ''__lookupSetter__'']"

definition getCommandKeywords :: "jsstring \<Rightarrow> CommandKeywords option" where
  \<comment> \<open>\<^verbatim>\<open>keywords[baseLang] || keywords.en\<close>, where \<^verbatim>\<open>keywords\<close> is an object literal
      with the own keys en, hi, kn, ml, ta. The property read also finds the keys
      inherited from \<^verbatim>\<open>Object.prototype\<close>; the value found there is truthy and is
      returned, and it is no keyword table: \<open>None\<close>.\<close>
  "getCommandKeywords lang =
     (let baseLang = splitFirst 45 lang in
      if baseLang = js ''en'' then Some keywords_en
      else if baseLang = js ''hi'' then Some keywords_hi
      else if baseLang = js ''kn'' then Some keywords_kn
      else if baseLang = js ''ml'' then Some keywords_ml
      else if baseLang = js ''ta'' then Some keywords_ta
      else if baseLang \<in> set inheritedKeys then None
      else Some keywords_en)"

section \<open>The command parser\<close>

definition containsAny :: "jsstring \<Rightarrow> jsstring list \<Rightarrow> bool" where
  \<comment> \<open>\<^verbatim>\<open>keywords.some(keyword => text.includes(keyword))\<close>\<close>
  "containsAny text keywords = (\<exists>keyword \<in> set keywords. includes_js text keyword)"

fun firstMatch :: "(jsstring \<Rightarrow> 'a option) \<Rightarrow> jsstring \<Rightarrow> 'a option" where
  \<comment> \<open>\<^verbatim>\<open>text.match(re)\<close>: the match at the leftmost position where \<open>re\<close> matches\<close>
  "firstMatch re [] = re []"
| "firstMatch re (c # cs) = (case re (c # cs) of Some m \<Rightarrow> Some m | None \<Rightarrow> firstMatch re cs)"

definition amountAt :: "jsstring \<Rightarrow> jsstring option" where
  \<comment> \<open>\<^verbatim>\<open>(\d+(?:[\.,]\d{1,2})?)\<close> at the head of the text: the captured group\<close>
  "amountAt s =
     (let ds = takeWhile isDigit s; rest = dropWhile isDigit s in
      if ds = [] then None
      else case rest of
             [] \<Rightarrow> Some ds
           | c # r \<Rightarrow>
               (let fs = take 2 (takeWhile isDigit r) in
                if (c = 46 \<or> c = 44) \<and> fs \<noteq> [] then Some (ds @ c # fs) else Some ds))"

definition currencyAmountAt :: "jsstring \<Rightarrow> jsstring option" where
  \<comment> \<open>the second pattern, an optional rupee (code unit 8377) or dollar sign (36), then
      \<^verbatim>\<open>\s*(\d+(?:[\.,]\d{1,2})?)\<close>, at the head of the text: the captured group\<close>
  "currencyAmountAt s =
     amountAt (dropWhile isWhiteSpace
       (case s of [] \<Rightarrow> [] | c # cs \<Rightarrow> if c = 8377 \<or> c = 36 then cs else c # cs))"

definition replaceComma :: "jsstring \<Rightarrow> jsstring" where
  \<comment> \<open>\<^verbatim>\<open>s.replace(',', '.')\<close>: the first comma\<close>
  "replaceComma s =
     (case dropWhile (\<lambda>c. c \<noteq> 44) s of
        [] \<Rightarrow> s
      | c # r \<Rightarrow> takeWhile (\<lambda>c. c \<noteq> 44) s @ 46 # r)"

definition parseFloat :: "jsstring \<Rightarrow> real option" where
  \<comment> \<open>\<^verbatim>\<open>parseFloat\<close> on digits with an optional fraction, the only strings the two
      captures hold; \<open>None\<close> is \<^verbatim>\<open>NaN\<close>\<close>
  "parseFloat s =
     (let ip = takeWhile isDigit s; rest = dropWhile isDigit s in
      if ip = [] then None
      else case rest of
             [] \<Rightarrow> Some (real (digitsVal ip))
           | c # r \<Rightarrow>
               (let fp = takeWhile isDigit r in
                if c = 46 then Some (real (digitsVal ip) + real (digitsVal fp) / 10 ^ length fp)
                else Some (real (digitsVal ip))))"

definition round2 :: "real \<Rightarrow> real" where
  \<comment> \<open>\<^verbatim>\<open>Math.round(amount * 100) / 100\<close>\<close>
  "round2 amt = real_of_int \<lfloor>amt * 100 + 1 / 2\<rfloor> / 100"

definition checkedAmount :: "jsstring option \<Rightarrow> real option" where
  \<comment> \<open>the body of \<^verbatim>\<open>if (amountMatch) { ... }\<close>: the amount returned, if one is\<close>
  "checkedAmount m =
     (case m of
        None \<Rightarrow> None
      | Some captured \<Rightarrow>
          (case parseFloat (replaceComma captured) of
             None \<Rightarrow> None
           | Some amt \<Rightarrow>
               if amt > 0 \<and> amt \<le> 1000000 then Some (round2 amt) else None))"

definition cashAmount :: "jsstring \<Rightarrow> real option" where
  \<comment> \<open>the two attempts of the amount-received branch, in order\<close>
  "cashAmount normalizedTranscript =
     (case checkedAmount (firstMatch amountAt normalizedTranscript) of
        Some amt \<Rightarrow> Some amt
      | None \<Rightarrow> checkedAmount (firstMatch currencyAmountAt normalizedTranscript))"

definition extractQuantity :: "(jsstring \<times> nat) list \<Rightarrow> jsstring \<Rightarrow> nat \<times> jsstring" where
  \<comment> \<open>\<^verbatim>\<open>quantity\<close> (here \<open>qty\<close>) and \<^verbatim>\<open>quantityText\<close> of the add path\<close>
  "extractQuantity nums normalizedTranscript =
     (let (qty, quantityText) =
        (case find (\<lambda>(word, num). includes_js normalizedTranscript word) nums of
           Some (word, num) \<Rightarrow> (max 1 (min num 100), word)
         | None \<Rightarrow> (1, []))
      in if qty = 1 then
           (case digitRun normalizedTranscript of
              Some quantityMatch \<Rightarrow>
                (let parsed = (if digitsVal quantityMatch = 0 then 1 else digitsVal quantityMatch)
                 in (max 1 (min parsed 100), quantityMatch))
            | None \<Rightarrow> (qty, quantityText))
         else (qty, quantityText))"

definition units :: "jsstring list" where
  "units =
     [js ''packet'', js ''packets'', js ''of'', js ''liter'', js ''liters'', js ''bottle'',
      js ''bottles'', js ''can'', js ''cans'', js ''piece'', js ''pieces'', js ''kg'',
      js ''gram'', js ''grams'']"

definition removeProductName :: "CommandKeywords \<Rightarrow> jsstring \<Rightarrow> jsstring" where
  \<comment> \<open>\<^verbatim>\<open>productName\<close> of the remove branch\<close>
  "removeProductName keywords normalizedTranscript =
     (let productName = fold replaceAll_gi (remove keywords) normalizedTranscript;
          productName = fold replaceAll_gi (map fst (numbers keywords)) productName
      in trim (removeDigits productName))"

definition addProductName :: "CommandKeywords \<Rightarrow> jsstring \<Rightarrow> jsstring \<Rightarrow> jsstring" where
  \<comment> \<open>\<^verbatim>\<open>productName\<close> of the add path\<close>
  "addProductName keywords quantityText normalizedTranscript =
     (let productName = fold replaceAll_gi (add keywords) normalizedTranscript;
          productName = (if quantityText \<noteq> [] then replaceAll_gi quantityText productName
                         else productName);
          productName = fold replaceAll_gi (map fst (numbers keywords)) productName;
          productName = removeDigits productName;
          productName = fold replaceAll_gi units productName
      in trim productName)"

definition addCommand ::
  "jsstring option \<Rightarrow> Product list \<Rightarrow> CommandKeywords \<Rightarrow> jsstring \<Rightarrow> jsstring \<Rightarrow> VoiceCommand" where
  \<comment> \<open>the default path, from \<^verbatim>\<open>let quantity = 1\<close> to the end of the function\<close>
  "addCommand i18n_language products keywords lang normalizedTranscript =
     (let (qty, quantityText) = extractQuantity (numbers keywords) normalizedTranscript;
          productName = addProductName keywords quantityText normalizedTranscript
      in case findProductByName i18n_language products productName (Some lang) of
           Some p \<Rightarrow> (command Add)\<lparr>product := Some p, quantity := Some qty\<rparr>
         | None \<Rightarrow> (command Unknown)\<lparr>action := Some product_not_found\<rparr>)"

definition classify ::
  "jsstring option \<Rightarrow> Product list \<Rightarrow> CommandKeywords \<Rightarrow> jsstring \<Rightarrow> jsstring \<Rightarrow> VoiceCommand" where
  \<comment> \<open>the body of \<^verbatim>\<open>parseVoiceCommand\<close> from \<^verbatim>\<open>// Check for clear cart\<close> to its end,
      for a keyword table \<open>keywords\<close>: the categories in the order the source tests
      them; a branch that does not return falls through to the next test\<close>
  "classify i18n_language products keywords lang normalizedTranscript =
     (if containsAny normalizedTranscript (clear keywords)
      then (command Clear)\<lparr>action := Some clear_cart\<rparr>
      else if containsAny normalizedTranscript (checkout keywords)
      then (command Checkout)\<lparr>action := Some open_payment\<rparr>
      else if containsAny normalizedTranscript (payNow keywords)
      then (command Pay_now)\<lparr>action := Some confirm_payment\<rparr>
      else if containsAny normalizedTranscript (cash keywords)
      then (command Pay_method)\<lparr>method_c := Some Cash, action := Some select_method\<rparr>
      else if containsAny normalizedTranscript (card_kw keywords)
      then (command Pay_method)\<lparr>method_c := Some Card, action := Some select_method\<rparr>
      else if containsAny normalizedTranscript (digital keywords)
      then (command Pay_method)\<lparr>method_c := Some Digital, action := Some select_method\<rparr>
      else
        (case (if containsAny normalizedTranscript (received keywords)
               then cashAmount normalizedTranscript else None) of
           Some amt \<Rightarrow> (command Cash_amount)\<lparr>amount := Some amt, action := Some set_cash_amount\<rparr>
         | None \<Rightarrow>
            (if containsAny normalizedTranscript (removeLast keywords)
             then (command Remove)\<lparr>action := Some remove_last\<rparr>
             else
               (case (if containsAny normalizedTranscript (remove keywords)
                      then findProductByName i18n_language products
                             (removeProductName keywords normalizedTranscript) (Some lang)
                      else None) of
                  Some p \<Rightarrow> (command Remove)\<lparr>product := Some p, action := Some remove_product\<rparr>
                | None \<Rightarrow>
                    addCommand i18n_language products keywords lang normalizedTranscript))))"

definition parseVoiceCommand ::
  "jsstring option \<Rightarrow> Product list \<Rightarrow> jsstring \<Rightarrow> jsstring option \<Rightarrow>
     js_error + VoiceCommand option" where
  \<comment> \<open>\<open>Inl\<close> is an exception thrown, \<open>Inr None\<close> the \<^verbatim>\<open>null\<close> the declared type
      allows, \<open>Inr (Some r)\<close> the object returned. \<open>i18n_language\<close> is the ambient
      \<^verbatim>\<open>i18n.language\<close> and \<open>products\<close> the field \<^verbatim>\<open>this.products\<close>. When the
      value of \<^verbatim>\<open>getCommandKeywords\<close> is no keyword table, its \<^verbatim>\<open>clear\<close> is
      \<^verbatim>\<open>undefined\<close> and the first \<^verbatim>\<open>containsAny\<close> throws a \<^verbatim>\<open>TypeError\<close>.\<close>
  "parseVoiceCommand i18n_language products transcript language =
     (if transcript = [] then Inr (Some ((command Unknown)\<lparr>action := Some invalid_input\<rparr>))
      else
        (let lang = languageOr language i18n_language;
             normalizedTranscript = trim (toLowerCase transcript)
         in
         if length normalizedTranscript < 1
         then Inr (Some ((command Unknown)\<lparr>action := Some empty_transcript\<rparr>))
         else
           (case getCommandKeywords lang of
              None \<Rightarrow> Inl TypeError
            | Some keywords \<Rightarrow>
                Inr (Some (classify i18n_language products keywords lang
                             normalizedTranscript)))))"

section \<open>Example transcripts and products\<close>

definition received_rupee :: jsstring where
  \<comment> \<open>the transcript "received" followed by a space, the rupee sign and "45.5"\<close>
  "received_rupee = js ''received '' @ [8377] @ js ''45.5''"

definition bill_hi :: jsstring where
  \<comment> \<open>the Hindi checkout keyword of the README's voice commands (three code units of
      Devanagari: U+092C U+093F U+0932)\<close>
  "bill_hi = [2348, 2367, 2354]"

definition pepsi :: Product where
  \<comment> \<open>the second entry of \<^verbatim>\<open>MOCK_PRODUCTS\<close>\<close>
  "pepsi = \<lparr>id_p = js ''2'', name = js ''Pepsi'', name_en = js ''Pepsi'', name_kn = None,
     name_ml = None, name_ta = None, name_hi = None, price = 25 / 10,
     category = js ''Beverages'', stock = 85, barcode = None, description = None\<rparr>"







definition gram_flour :: Product where
  \<comment> \<open>a product whose Hindi name is written in Latin letters\<close>
  "gram_flour = \<lparr>id_p = js ''41'', name = js ''Gram Flour'', name_en = js ''Gram Flour'',
     name_kn = None, name_ml = None, name_ta = None, name_hi = Some (js ''Besan''),
     price = 4, category = js ''Grocery'', stock = 20, barcode = None, description = None\<rparr>"

definition besan :: Product where
  "besan = \<lparr>id_p = js ''42'', name = js ''Besan'', name_en = js ''Besan'', name_kn = None,
     name_ml = None, name_ta = None, name_hi = None, price = 5, category = js ''Grocery'',
     stock = 10, barcode = None, description = None\<rparr>"





section \<open>Lemmas on the model\<close>

subsection \<open>Evaluation\<close>

text \<open>
  The definitions are evaluated by the simplifier. The English table is turned into
  code units once.
\<close>

lemmas string_defs =
  js_def isDigit_def isWhiteSpace_def isPunctOrSymbol_def toLowerUnit_def toUpperUnit_def
  toLowerCase_def toUpperCase_def trim_def splitFirst_def removeDigits_def digitRun_def
  digitsVal_def

lemmas amount_defs =
  cashAmount_def checkedAmount_def amountAt_def currencyAmountAt_def replaceComma_def
  parseFloat_def round2_def

lemma keywords_en_units:
  "keywords_en = \<lparr>
     clear =
       [[99, 108, 101, 97, 114, 32, 99, 97, 114, 116],
        [101, 109, 112, 116, 121, 32, 99, 97, 114, 116],
        [115, 116, 97, 114, 116, 32, 111, 118, 101, 114],
        [99, 108, 101, 97, 114]],
     checkout =
       [[99, 104, 101, 99, 107, 111, 117, 116],
        [99, 104, 101, 99, 107, 32, 111, 117, 116],
        [112, 114, 111, 99, 101, 101, 100, 32, 116, 111, 32, 112, 97, 121, 109, 101, 110, 116],
        [103, 111, 32, 116, 111, 32, 112, 97, 121, 109, 101, 110, 116],
        [111, 112, 101, 110, 32, 112, 97, 121, 109, 101, 110, 116],
        [98, 105, 108, 108]],
     payNow =
       [[112, 97, 121, 32, 110, 111, 119],
        [99, 111, 110, 102, 105, 114, 109, 32, 112, 97, 121, 109, 101, 110, 116],
        [99, 111, 109, 112, 108, 101, 116, 101, 32, 112, 97, 121, 109, 101, 110, 116],
        [112, 97, 121],
        [99, 111, 110, 102, 105, 114, 109]],
     cash =
       [[112, 97, 121, 32, 119, 105, 116, 104, 32, 99, 97, 115, 104],
        [99, 97, 115, 104, 32, 112, 97, 121, 109, 101, 110, 116],
        [99, 97, 115, 104],
        [99, 97, 115, 104, 32, 109, 111, 100, 101]],
     card_kw =
       [[112, 97, 121, 32, 119, 105, 116, 104, 32, 99, 97, 114, 100],
        [99, 97, 114, 100, 32, 112, 97, 121, 109, 101, 110, 116],
        [99, 114, 101, 100, 105, 116, 32, 99, 97, 114, 100],
        [100, 101, 98, 105, 116, 32, 99, 97, 114, 100],
        [99, 97, 114, 100]],
     digital =
       [[100, 105, 103, 105, 116, 97, 108, 32, 112, 97, 121, 109, 101, 110, 116],
        [117, 112, 105],
        [119, 97, 108, 108, 101, 116],
        [100, 105, 103, 105, 116, 97, 108],
        [112, 104, 111, 110, 101, 112, 101],
        [103, 112, 97, 121]],
     received =
       [[97, 109, 111, 117, 110, 116, 32, 114, 101, 99, 101, 105, 118, 101, 100],
        [99, 97, 115, 104, 32, 114, 101, 99, 101, 105, 118, 101, 100],
        [114, 101, 99, 101, 105, 118, 101, 100],
        [99, 97, 115, 104],
        [97, 109, 111, 117, 110, 116]],
     remove =
       [[114, 101, 109, 111, 118, 101],
        [100, 101, 108, 101, 116, 101],
        [116, 97, 107, 101, 32, 111, 117, 116]],
     removeLast =
       [[114, 101, 109, 111, 118, 101, 32, 108, 97, 115, 116],
        [100, 101, 108, 101, 116, 101, 32, 108, 97, 115, 116],
        [117, 110, 100, 111, 32, 108, 97, 115, 116],
        [117, 110, 100, 111]],
     add =
       [[97, 100, 100],
        [103, 101, 116],
        [98, 117, 121],
        [116, 97, 107, 101]],
     numbers =
       [([111, 110, 101], 1),
        ([116, 119, 111], 2),
        ([116, 104, 114, 101, 101], 3),
        ([102, 111, 117, 114], 4),
        ([102, 105, 118, 101], 5),
        ([115, 105, 120], 6),
        ([115, 101, 118, 101, 110], 7),
        ([101, 105, 103, 104, 116], 8),
        ([110, 105, 110, 101], 9),
        ([116, 101, 110], 10)]
   \<rparr>"
  by (simp add: keywords_en_def js_def)

subsection \<open>The language\<close>

lemma languageOr_Some: "l \<noteq> [] \<Longrightarrow> languageOr (Some l) g = l"
  by (cases l) (simp_all add: languageOr_def)

lemma languageOr_en: "languageOr (Some (js ''en'')) g = js ''en''"
  by (rule languageOr_Some) (simp add: js_def)

lemma splitFirst_en: "splitFirst 45 (js ''en'') = js ''en''"
  by (simp add: splitFirst_def js_def)

lemma splitFirst_nonempty: "splitFirst sep l \<noteq> [] \<Longrightarrow> l \<noteq> []"
  by (auto simp: splitFirst_def)

lemma getCommandKeywords_en: "getCommandKeywords (js ''en'') = Some keywords_en"
  by (simp add: getCommandKeywords_def splitFirst_def js_def)

lemma getCommandKeywords_cases:
  assumes "getCommandKeywords lang = Some kw"
  shows "kw = keywords_en \<or> kw = keywords_hi \<or> kw = keywords_kn \<or> kw = keywords_ml \<or> kw = keywords_ta"
  using assms by (auto simp: getCommandKeywords_def Let_def split: if_splits)

lemma getCommandKeywords_None:
  "getCommandKeywords lang = None \<longleftrightarrow> splitFirst 45 lang \<in> set inheritedKeys"
  by (simp add: getCommandKeywords_def Let_def inheritedKeys_def js_def)

subsection \<open>The parser and its chain of tests\<close>

lemma parseVoiceCommand_classify:
  assumes "transcript \<noteq> []" and "trim (toLowerCase transcript) = nt" and "nt \<noteq> []"
    and "getCommandKeywords (languageOr language g) = Some kw"
  shows "parseVoiceCommand g ps transcript language =
           Inr (Some (classify g ps kw (languageOr language g) nt))"
  using assms by (auto simp: parseVoiceCommand_def Let_def)

lemma parseVoiceCommand_en:
  assumes "transcript \<noteq> []" and "trim (toLowerCase transcript) = nt" and "nt \<noteq> []"
  shows "parseVoiceCommand g ps transcript (Some (js ''en'')) =
           Inr (Some (classify g ps keywords_en (js ''en'') nt))"
  using parseVoiceCommand_classify [OF assms, of "Some (js ''en'')" g keywords_en ps]
  by (simp add: languageOr_en getCommandKeywords_en)

lemma parseVoiceCommand_en_lower:
  assumes "t \<noteq> []" and "trim (toLowerCase t) = t"
  shows "parseVoiceCommand g ps t (Some (js ''en'')) =
           Inr (Some (classify g ps keywords_en (js ''en'') t))"
  using parseVoiceCommand_en [OF assms(1) assms(2) assms(1)] .

lemma parseVoiceCommand_returns:
  assumes "splitFirst 45 (languageOr language i18n_language) \<notin> set inheritedKeys"
  shows "\<exists>r. parseVoiceCommand i18n_language products transcript language = Inr (Some r)"
proof -
  have "\<exists>kw. getCommandKeywords (languageOr language i18n_language) = Some kw"
    using assms by (simp add: getCommandKeywords_def Let_def)
  then show ?thesis
    by (auto simp: parseVoiceCommand_def Let_def)
qed

lemma parseVoiceCommand_throws:
  "parseVoiceCommand g ps transcript language = Inl TypeError \<longleftrightarrow>
     trim (toLowerCase transcript) \<noteq> [] \<and>
     splitFirst 45 (languageOr language g) \<in> set inheritedKeys"
proof -
  have "trim (toLowerCase transcript) \<noteq> [] \<Longrightarrow> transcript \<noteq> []"
    by (auto simp: trim_def toLowerCase_def)
  then show ?thesis
    by (auto simp: parseVoiceCommand_def Let_def getCommandKeywords_None [symmetric]
        split: option.splits)
qed




subsection \<open>Blank text\<close>

lemma trim_blank:
  assumes "\<forall>c \<in> set s. isWhiteSpace c"
  shows "trim s = []"
proof -
  have "dropWhile isWhiteSpace s = []"
    using assms by simp
  then show ?thesis by (simp only: trim_def rev.simps dropWhile.simps)
qed


lemma toLowerUnit_space: "isWhiteSpace c \<Longrightarrow> toLowerUnit c = c"
  by (auto simp: isWhiteSpace_def toLowerUnit_def)

lemma toLowerCase_blank: "\<forall>c \<in> set s. isWhiteSpace c \<Longrightarrow> toLowerCase s = s"
  by (induction s) (simp_all add: toLowerCase_def toLowerUnit_space)

lemma space_not_digit: "isWhiteSpace c \<Longrightarrow> \<not> isDigit c"
  by (auto simp: isWhiteSpace_def isDigit_def)




subsection \<open>The keywords of the tables\<close>

text \<open>
  Every keyword is non-empty, in lower case and without whitespace at its ends, so a
  transcript that contains a keyword still contains it after \<^verbatim>\<open>toLowerCase\<close> and
  \<^verbatim>\<open>trim\<close>; and the keywords from which the source builds regular expressions hold
  no metacharacter.
\<close>

lemma keywords_plain:
  assumes "getCommandKeywords lang = Some kw"
  shows "list_all (\<lambda>k. k \<noteq> [] \<and> toLowerCase k = k \<and> \<not> isWhiteSpace (hd k) \<and>
                      \<not> isWhiteSpace (last k))
           (clear kw @ checkout kw @ payNow kw @ cash kw @ card_kw kw @ digital kw @
            received kw @ remove kw @ removeLast kw @ add kw)"
  using getCommandKeywords_cases [OF assms]
  by (elim disjE)
    (simp_all add: keywords_en_units keywords_hi_def keywords_kn_def keywords_ml_def
      keywords_ta_def toLowerCase_def toLowerUnit_def isWhiteSpace_def)

lemma checkout_nonempty:
  assumes "getCommandKeywords lang = Some kw"
  shows "[] \<notin> set (checkout kw)"
  using keywords_plain [OF assms] by (auto simp: list_all_iff)


lemma includes_js_Nil: "includes_js [] k \<longleftrightarrow> k = []"
  by simp

lemma containsAny_Nil: "[] \<notin> set ks \<Longrightarrow> \<not> containsAny [] ks"
  by (auto simp: containsAny_def)

lemma startsWith_iff: "startsWith t k \<longleftrightarrow> (\<exists>b. t = k @ b)"
  by (induction t k rule: startsWith.induct) auto

lemma includes_js_iff: "includes_js t k \<longleftrightarrow> (\<exists>a b. t = a @ k @ b)"
proof (induction t)
  case Nil
  show ?case by auto
next
  case (Cons c cs)
  show ?case
  proof
    assume "includes_js (c # cs) k"
    then consider "startsWith (c # cs) k" | "includes_js cs k" by auto
    then show "\<exists>a b. c # cs = a @ k @ b"
    proof cases
      case 1
      then obtain b where "c # cs = k @ b" by (auto simp: startsWith_iff)
      then have "c # cs = [] @ k @ b" by simp
      then show ?thesis by blast
    next
      case 2
      then obtain a b where "cs = a @ k @ b" using Cons by auto
      then have "c # cs = (c # a) @ k @ b" by simp
      then show ?thesis by blast
    qed
  next
    assume "\<exists>a b. c # cs = a @ k @ b"
    then obtain a b where ab: "c # cs = a @ k @ b" by blast
    show "includes_js (c # cs) k"
    proof (cases a)
      case Nil
      then have "startsWith (c # cs) k" using ab by (auto simp: startsWith_iff)
      then show ?thesis by simp
    next
      case (Cons x xs)
      then have "cs = xs @ k @ b" using ab by simp
      then have "includes_js cs k" using Cons.IH by blast
      then show ?thesis by simp
    qed
  qed
qed

lemma dropWhile_keeps:
  assumes "k \<noteq> []" and "\<not> P (hd k)"
  shows "\<exists>a'. dropWhile P (a @ k @ b) = a' @ k @ b"
proof (induction a)
  case Nil
  obtain x xs where "k = x # xs" using assms(1) by (cases k) auto
  then have "dropWhile P ([] @ k @ b) = [] @ k @ b" using assms(2) by simp
  then show ?case by blast
next
  case (Cons x a)
  show ?case
  proof (cases "P x")
    case True
    then show ?thesis using Cons by simp
  next
    case False
    then have "dropWhile P ((x # a) @ k @ b) = (x # a) @ k @ b" by simp
    then show ?thesis by blast
  qed
qed

lemma trim_keeps:
  assumes "k \<noteq> []" and "\<not> isWhiteSpace (hd k)" and "\<not> isWhiteSpace (last k)"
  shows "\<exists>a' b'. trim (a @ k @ b) = a' @ k @ b'"
proof -
  obtain a' where a': "dropWhile isWhiteSpace (a @ k @ b) = a' @ k @ b"
    using dropWhile_keeps [of k isWhiteSpace a b] assms(1,2) by blast
  have "rev k \<noteq> []" "\<not> isWhiteSpace (hd (rev k))"
    using assms(1,3) by (simp_all add: hd_rev)
  then obtain b' where b': "dropWhile isWhiteSpace (rev b @ rev k @ rev a') = b' @ rev k @ rev a'"
    using dropWhile_keeps [of "rev k" isWhiteSpace "rev b" "rev a'"] by blast
  have "trim (a @ k @ b) = a' @ k @ rev b'"
    by (simp add: trim_def a' b')
  then show ?thesis by blast
qed

lemma includes_js_normalized:
  assumes "includes_js t k" and "k \<noteq> []" and "toLowerCase k = k"
    and "\<not> isWhiteSpace (hd k)" and "\<not> isWhiteSpace (last k)"
  shows "includes_js (trim (toLowerCase t)) k"
proof -
  obtain a b where "t = a @ k @ b"
    using assms(1) by (auto simp: includes_js_iff)
  then have "toLowerCase t = toLowerCase a @ k @ toLowerCase b"
    using assms(3) by (simp add: toLowerCase_def)
  then show ?thesis
    using trim_keeps [OF assms(2,4,5), of "toLowerCase a" "toLowerCase b"]
    by (auto simp: includes_js_iff)
qed

lemma containsAny_normalized:
  assumes "getCommandKeywords lang = Some kw"
    and "set ks \<subseteq> set (clear kw @ checkout kw @ payNow kw @ cash kw @ card_kw kw @ digital kw @
            received kw @ remove kw @ removeLast kw @ add kw)"
    and "containsAny transcript ks"
  shows "containsAny (trim (toLowerCase transcript)) ks"
proof -
  obtain k where k: "k \<in> set ks" "includes_js transcript k"
    using assms(3) by (auto simp: containsAny_def)
  then have "k \<noteq> [] \<and> toLowerCase k = k \<and> \<not> isWhiteSpace (hd k) \<and> \<not> isWhiteSpace (last k)"
    using keywords_plain [OF assms(1)] assms(2) by (auto simp: list_all_iff)
  then have "includes_js (trim (toLowerCase transcript)) k"
    using includes_js_normalized [OF k(2)] by blast
  then show ?thesis
    using k(1) by (auto simp: containsAny_def)
qed

lemma keywords_literal:
  assumes "getCommandKeywords lang = Some kw"
  shows "list_all literalPattern (remove kw @ add kw @ map fst (numbers kw))"
  using getCommandKeywords_cases [OF assms]
  by (elim disjE)
    (simp_all add: literalPattern_def keywords_en_units keywords_hi_def keywords_kn_def
      keywords_ml_def keywords_ta_def)

lemma units_literal: "list_all literalPattern units"
  by (simp add: units_def literalPattern_def js_def)

lemma digits_literal: "\<forall>c \<in> set d. isDigit c \<Longrightarrow> literalPattern d"
  by (auto simp: literalPattern_def isDigit_def)

lemma digitRun_digits: "digitRun t = Some d \<Longrightarrow> \<forall>c \<in> set d. isDigit c"
  by (auto simp: digitRun_def split: list.splits dest: set_takeWhileD)

lemma quantityText_literal:
  assumes "getCommandKeywords lang = Some kw"
  shows "literalPattern (snd (extractQuantity (numbers kw) t))"
proof -
  have words: "\<forall>x \<in> set (numbers kw). literalPattern (fst x)"
    using keywords_literal [OF assms] by (simp add: list_all_iff)
  have found: "literalPattern w"
    if "find (\<lambda>(word, num). includes_js t word) (numbers kw) = Some (w, n)" for w n
  proof -
    from that obtain i where "i < length (numbers kw)" "numbers kw ! i = (w, n)"
      by (auto simp: find_Some_iff)
    then have "(w, n) \<in> set (numbers kw)"
      by (metis nth_mem)
    then show ?thesis using words by force
  qed
  have empty: "literalPattern []"
    by (simp add: literalPattern_def)
  show ?thesis
    using found empty digits_literal [OF digitRun_digits]
    by (auto simp: extractQuantity_def Let_def split: option.splits)
qed

subsection \<open>The amount patterns\<close>

text \<open>
  The second pattern (with the currency sign) captures what the first captures, so the
  second attempt never succeeds where the first has failed.
\<close>

lemma amountAt_nondigit: "\<not> isDigit c \<Longrightarrow> amountAt (c # cs) = None"
  by (simp add: amountAt_def)

lemma amountAt_Some: "amountAt s = Some m \<Longrightarrow> \<exists>d ds. s = d # ds \<and> isDigit d"
  by (cases s) (auto simp: amountAt_def Let_def split: if_splits)

lemma firstMatch_amountAt_skip:
  "\<forall>c \<in> set xs. \<not> isDigit c \<Longrightarrow> firstMatch amountAt (xs @ r) = firstMatch amountAt r"
  by (induction xs) (simp_all add: amountAt_nondigit)

lemma firstMatch_amountAt_here:
  assumes "amountAt r = Some m"
  shows "firstMatch amountAt r = Some m"
  using assms amountAt_Some [OF assms] by auto

lemma firstMatch_amountAt_spaces:
  assumes "amountAt (dropWhile isWhiteSpace cs) = Some m"
  shows "firstMatch amountAt cs = Some m"
proof -
  have "cs = takeWhile isWhiteSpace cs @ dropWhile isWhiteSpace cs"
    by simp
  moreover have "\<forall>c \<in> set (takeWhile isWhiteSpace cs). \<not> isDigit c"
    by (auto dest: set_takeWhileD simp: space_not_digit)
  ultimately have "firstMatch amountAt cs = firstMatch amountAt (dropWhile isWhiteSpace cs)"
    using firstMatch_amountAt_skip by metis
  then show ?thesis
    using firstMatch_amountAt_here [OF assms] by simp
qed

lemma firstMatch_currency:
  "firstMatch currencyAmountAt s = firstMatch amountAt s"
proof (induction s)
  case Nil
  show ?case by (simp add: currencyAmountAt_def)
next
  case (Cons c cs)
  show ?case
  proof (cases "isDigit c")
    case True
    then have "currencyAmountAt (c # cs) = amountAt (c # cs)"
      by (auto simp: currencyAmountAt_def isDigit_def isWhiteSpace_def)
    then show ?thesis using Cons by (simp split: option.splits)
  next
    case False
    then have none: "amountAt (c # cs) = None"
      by (rule amountAt_nondigit)
    show ?thesis
    proof (cases "currencyAmountAt (c # cs)")
      case None
      then show ?thesis using Cons none by simp
    next
      case (Some m)
      have "amountAt (dropWhile isWhiteSpace cs) = Some m"
      proof (cases "c = 8377 \<or> c = 36")
        case True
        then show ?thesis using Some by (auto simp: currencyAmountAt_def)
      next
        case notcur: False
        show ?thesis
        proof (cases "isWhiteSpace c")
          case True
          then show ?thesis using Some notcur by (simp add: currencyAmountAt_def)
        next
          case False
          then have "currencyAmountAt (c # cs) = amountAt (c # cs)"
            using notcur by (simp add: currencyAmountAt_def)
          then show ?thesis using Some none by simp
        qed
      qed
      then have "firstMatch amountAt cs = Some m"
        by (rule firstMatch_amountAt_spaces)
      then show ?thesis using Some none by simp
    qed
  qed
qed

lemma cashAmount_first: "cashAmount s = checkedAmount (firstMatch amountAt s)"
  by (simp add: cashAmount_def firstMatch_currency split: option.splits)

subsection \<open>The quantity\<close>

lemma extractQuantity_range:
  "1 \<le> fst (extractQuantity ns t) \<and> fst (extractQuantity ns t) \<le> 100"
  by (auto simp: extractQuantity_def Let_def split: option.splits prod.splits)

lemma extractQuantity_word:
  assumes "find (\<lambda>(word, num). includes_js t word) ns = Some (w, n)" and "2 \<le> n"
  shows "extractQuantity ns t = (min n 100, w)"
  using assms by (auto simp: extractQuantity_def Let_def)

lemma extractQuantity_word_one:
  assumes "find (\<lambda>(word, num). includes_js t word) ns = Some (w, n)" and "n \<le> 1"
    and "digitRun t = Some d"
  shows "extractQuantity ns t =
           (max 1 (min (if digitsVal d = 0 then 1 else digitsVal d) 100), d)"
  using assms by (auto simp: extractQuantity_def Let_def)

lemma extractQuantity_digits:
  assumes "find (\<lambda>(word, num). includes_js t word) ns = None" and "digitRun t = Some d"
  shows "extractQuantity ns t =
           (max 1 (min (if digitsVal d = 0 then 1 else digitsVal d) 100), d)"
  using assms by (auto simp: extractQuantity_def Let_def)

lemma extractQuantity_default:
  assumes "find (\<lambda>(word, num). includes_js t word) ns = None" and "digitRun t = None"
  shows "extractQuantity ns t = (1, [])"
  using assms by (auto simp: extractQuantity_def Let_def)

lemma extractQuantity_500:
  "extractQuantity (numbers keywords_en) (js ''500 chips'') = (100, js ''500'')"
  by (simp add: extractQuantity_def keywords_en_units string_defs)

subsection \<open>The name of a product in a language\<close>

lemma getProductNameInLanguage_en:
  "getProductNameInLanguage g p (Some (js ''en'')) = (if name_en p \<noteq> [] then name_en p else name p)"
  by (cases "name_en p")
    (simp_all add: getProductNameInLanguage_def languageOr_en splitFirst_en nameField_def)

lemma getProductNameInLanguage_given:
  "b \<noteq> [] \<Longrightarrow> getProductNameInLanguage g p (Some b) = getProductNameInLanguage g' p (Some b)"
  by (simp add: getProductNameInLanguage_def languageOr_Some)



subsection \<open>Token sets and scores\<close>









subsection \<open>The stages of the resolver\<close>

lemma findProductByName_empty: "findProductByName g [] n l = None"
  by (simp add: findProductByName_def Let_def)

lemma addCommand_empty:
  "addCommand g [] kw lang nt = (command Unknown)\<lparr>action := Some product_not_found\<rparr>"
  by (simp add: addCommand_def findProductByName_empty split: prod.splits)






lemma findProductByName_given:
  assumes "splitFirst 45 l \<noteq> []"
  shows "findProductByName g ps n (Some l) = findProductByName g' ps n (Some l)"
proof -
  let ?b = "splitFirst 45 l"
  have l: "languageOr (Some l) g = l" "languageOr (Some l) g' = l"
    using splitFirst_nonempty [OF assms] by (simp_all add: languageOr_Some)
  have n: "\<And>p. getProductNameInLanguage g p (Some ?b) = getProductNameInLanguage g' p (Some ?b)"
    using assms by (rule getProductNameInLanguage_given)
  have e: "exactMatch g ?b = exactMatch g' ?b" "containsMatch g ?b = containsMatch g' ?b"
    "fuzzyCurrent g ps ?b = fuzzyCurrent g' ps ?b"
    by (simp_all add: exactMatch_def containsMatch_def fuzzyCurrent_def currentScore_def n
        fun_eq_iff)
  show ?thesis
    unfolding findProductByName_def l Let_def e by (rule refl)
qed

lemma classify_given:
  assumes "splitFirst 45 l \<noteq> []"
  shows "classify g ps kw l nt = classify g' ps kw l nt"
  unfolding classify_def addCommand_def findProductByName_given [OF assms, of g _ _ g']
  by (rule refl)

subsection \<open>The examples\<close>

lemma classify_en_received_50:
  "classify g ps keywords_en (js ''en'') (js ''received 50 dollars'') =
     (command Cash_amount)\<lparr>amount := Some 50, action := Some set_cash_amount\<rparr>"
  by (simp add: classify_def containsAny_def keywords_en_units string_defs amount_defs)

lemma classify_en_received_rupee:
  "classify g ps keywords_en (js ''en'') received_rupee =
     (command Cash_amount)\<lparr>amount := Some (91 / 2), action := Some set_cash_amount\<rparr>"
  by (simp add: classify_def containsAny_def keywords_en_units string_defs amount_defs
      received_rupee_def)

lemma classify_en_received_minus_5:
  "classify g ps keywords_en (js ''en'') (js ''received -5'') =
     (command Cash_amount)\<lparr>amount := Some 5, action := Some set_cash_amount\<rparr>"
  by (simp add: classify_def containsAny_def keywords_en_units string_defs amount_defs)


lemma pepsi_nt: "trim (toLowerCase (js ''one 2 liter pepsi'')) = js ''one 2 liter pepsi''"
  by (simp add: string_defs)

lemma pepsi_quantity:
  "extractQuantity (numbers keywords_en) (js ''one 2 liter pepsi'') = (2, js ''2'')"
  by (simp add: extractQuantity_def keywords_en_units string_defs)

lemma pepsi_productName:
  "addProductName keywords_en (js ''2'') (js ''one 2 liter pepsi'') = js ''pepsi''"
  by (simp add: addProductName_def keywords_en_units units_def string_defs)

lemma pepsi_normalize: "normalize (js ''pepsi'') = js ''pepsi''" "normalize (js ''Pepsi'') = js ''pepsi''"
  by (simp_all add: normalize_def string_defs)

lemma pepsi_found:
  "findProductByName g [pepsi] (js ''pepsi'') (Some (js ''en'')) = Some pepsi"
proof -
  have n: "getProductNameInLanguage g pepsi (Some (js ''en'')) = js ''Pepsi''"
    unfolding getProductNameInLanguage_en by (simp add: pepsi_def js_def)
  have b: "\<not> barcodeMatch x pepsi" for x
    by (simp add: barcodeMatch_def pepsi_def)
  have e: "exactMatch g (js ''en'') (js ''pepsi'') pepsi"
    by (simp add: exactMatch_def n pepsi_normalize)
  have t: "js ''pepsi'' \<noteq> []" "trim (js ''pepsi'') \<noteq> []" "\<not> length (js ''pepsi'') < 2"
    by (simp_all add: string_defs)
  show ?thesis
    by (simp add: findProductByName_def languageOr_en splitFirst_en pepsi_normalize t b e)
qed

lemma pepsi_classify:
  "classify g [pepsi] keywords_en (js ''en'') (js ''one 2 liter pepsi'') =
     (command Add)\<lparr>product := Some pepsi, quantity := Some 2\<rparr>"
proof -
  have c: "\<not> containsAny (js ''one 2 liter pepsi'') (clear keywords_en)"
    "\<not> containsAny (js ''one 2 liter pepsi'') (checkout keywords_en)"
    "\<not> containsAny (js ''one 2 liter pepsi'') (payNow keywords_en)"
    "\<not> containsAny (js ''one 2 liter pepsi'') (cash keywords_en)"
    "\<not> containsAny (js ''one 2 liter pepsi'') (card_kw keywords_en)"
    "\<not> containsAny (js ''one 2 liter pepsi'') (digital keywords_en)"
    "\<not> containsAny (js ''one 2 liter pepsi'') (received keywords_en)"
    "\<not> containsAny (js ''one 2 liter pepsi'') (removeLast keywords_en)"
    "\<not> containsAny (js ''one 2 liter pepsi'') (remove keywords_en)"
    by (simp_all add: containsAny_def keywords_en_units js_def)
  show ?thesis
    by (simp add: classify_def c addCommand_def pepsi_quantity pepsi_productName pepsi_found)
qed





















lemma besan_text:
  "trim (toLowerCase (js ''besan'')) = js ''besan''" "js ''besan'' \<noteq> []"
  "trim (js ''besan'') \<noteq> []" "\<not> length (js ''besan'') < 2"
  "normalize (js ''besan'') = js ''besan''" "normalize (js ''Besan'') = js ''besan''"
  "normalize (js ''Gram Flour'') = js ''gram flour''"
  by (simp_all add: normalize_def string_defs)

lemma besan_language:
  "languageOr (Some (js ''-IN'')) g = js ''-IN''" "splitFirst 45 (js ''-IN'') = []"
  "getCommandKeywords (js ''-IN'') = Some keywords_en"
  "languageOr (Some []) (Some (js ''hi'')) = js ''hi''"
  "languageOr (Some []) (Some (js ''en'')) = js ''en''"
  "splitFirst 45 (js ''hi'') = js ''hi''"
  by (simp_all add: languageOr_def getCommandKeywords_def inheritedKeys_def splitFirst_def js_def)

lemma besan_names:
  "getProductNameInLanguage (Some (js ''hi'')) gram_flour (Some []) = js ''Besan''"
  "getProductNameInLanguage (Some (js ''en'')) gram_flour (Some []) = js ''Gram Flour''"
  "getProductNameInLanguage (Some (js ''en'')) besan (Some []) = js ''Besan''"
  unfolding getProductNameInLanguage_def besan_language splitFirst_en
  by (simp_all add: nameField_def gram_flour_def besan_def js_def)

lemma besan_found:
  "findProductByName (Some (js ''hi'')) [gram_flour, besan] (js ''besan'') (Some (js ''-IN'')) =
     Some gram_flour"
  "findProductByName (Some (js ''en'')) [gram_flour, besan] (js ''besan'') (Some (js ''-IN'')) =
     Some besan"
proof -
  have b: "\<not> barcodeMatch x gram_flour" "\<not> barcodeMatch x besan" for x
    by (simp_all add: barcodeMatch_def gram_flour_def besan_def)
  have hi: "exactMatch (Some (js ''hi'')) [] (js ''besan'') gram_flour"
    by (simp add: exactMatch_def besan_names besan_text)
  have en: "\<not> exactMatch (Some (js ''en'')) [] (js ''besan'') gram_flour"
    "exactMatch (Some (js ''en'')) [] (js ''besan'') besan"
    unfolding exactMatch_def besan_names besan_text by (simp_all add: js_def)
  show "findProductByName (Some (js ''hi'')) [gram_flour, besan] (js ''besan'') (Some (js ''-IN'')) =
     Some gram_flour"
    using besan_text(2-4)
    by (simp add: findProductByName_def besan_language besan_text(5) b hi)
  show "findProductByName (Some (js ''en'')) [gram_flour, besan] (js ''besan'') (Some (js ''-IN'')) =
     Some besan"
    using besan_text(2-4)
    by (simp add: findProductByName_def besan_language besan_text(5) b en)
qed

lemma besan_classify:
  "classify g ps keywords_en (js ''-IN'') (js ''besan'') =
     (case findProductByName g ps (js ''besan'') (Some (js ''-IN'')) of
        Some p \<Rightarrow> (command Add)\<lparr>product := Some p, quantity := Some 1\<rparr>
      | None \<Rightarrow> (command Unknown)\<lparr>action := Some product_not_found\<rparr>)"
proof -
  have c: "\<not> containsAny (js ''besan'') (clear keywords_en)"
    "\<not> containsAny (js ''besan'') (checkout keywords_en)"
    "\<not> containsAny (js ''besan'') (payNow keywords_en)"
    "\<not> containsAny (js ''besan'') (cash keywords_en)"
    "\<not> containsAny (js ''besan'') (card_kw keywords_en)"
    "\<not> containsAny (js ''besan'') (digital keywords_en)"
    "\<not> containsAny (js ''besan'') (received keywords_en)"
    "\<not> containsAny (js ''besan'') (removeLast keywords_en)"
    "\<not> containsAny (js ''besan'') (remove keywords_en)"
    by (simp_all add: containsAny_def keywords_en_units js_def)
  have q: "extractQuantity (numbers keywords_en) (js ''besan'') = (1, [])"
    by (simp add: extractQuantity_def keywords_en_units string_defs)
  have n: "addProductName keywords_en [] (js ''besan'') = js ''besan''"
    by (simp add: addProductName_def keywords_en_units units_def string_defs)
  show ?thesis
    by (simp add: classify_def c addCommand_def q n split: option.splits)
qed

section \<open>The claims\<close>

text \<open>
  C1. The transcript "pay with cash" in English is said to select the payment method
  cash. The table of the cash category lists the phrase, and the README and the
  interface list it among the voice commands; but the pay-now category is tested first
  and its keyword "pay" is a substring of the transcript, so the parser answers
  \<^verbatim>\<open>pay_now\<close> with the action \<^verbatim>\<open>confirm_payment\<close>, for every catalog.
\<close>

theorem pay_with_cash_is_pay_now:
  "parseVoiceCommand i18n_language products (js ''pay with cash'') (Some (js ''en'')) =
     Inr (Some ((command Pay_now)\<lparr>action := Some confirm_payment\<rparr>))"
proof -
  have nt: "trim (toLowerCase (js ''pay with cash'')) = js ''pay with cash''"
    by (simp add: string_defs)
  have "classify i18n_language products keywords_en (js ''en'') (js ''pay with cash'') =
          (command Pay_now)\<lparr>action := Some confirm_payment\<rparr>"
    by (simp add: classify_def containsAny_def keywords_en_units js_def)
  with parseVoiceCommand_en [OF _ nt, of i18n_language products] show ?thesis
    by (simp add: js_def)
qed




text \<open>
  C3. Amended: in English, "received 50 dollars" yields the amount 50, "received" with
  the rupee sign and 45.5 yields 45.5, and "received -5" yields the amount 5: the amount
  pattern has no sign, so the digits after the minus sign are captured and pass the
  range test. The check \<open>amount > 0\<close> rejects a zero amount only ("received 0").
  The amount is the decimal number the digits denote; the \<^verbatim>\<open>number\<close> of the source is
  the double nearest to it, and \<^verbatim>\<open>Math.round(amount * 100) / 100\<close> returns that double
  for a number of at most two decimals.
\<close>

theorem received_amounts:
  "parseVoiceCommand i18n_language products (js ''received 50 dollars'') (Some (js ''en'')) =
     Inr (Some ((command Cash_amount)\<lparr>amount := Some 50, action := Some set_cash_amount\<rparr>)) \<and>
   parseVoiceCommand i18n_language products received_rupee (Some (js ''en'')) =
     Inr (Some ((command Cash_amount)\<lparr>amount := Some (45 + 5 / 10), action := Some set_cash_amount\<rparr>)) \<and>
   parseVoiceCommand i18n_language products (js ''received -5'') (Some (js ''en'')) =
     Inr (Some ((command Cash_amount)\<lparr>amount := Some 5, action := Some set_cash_amount\<rparr>)) \<and>
   cashAmount (js ''received 0'') = None"
proof -
  have a: "trim (toLowerCase (js ''received 50 dollars'')) = js ''received 50 dollars''"
    by (simp add: string_defs)
  have b: "trim (toLowerCase received_rupee) = received_rupee"
    by (simp add: string_defs received_rupee_def)
  have c: "trim (toLowerCase (js ''received -5'')) = js ''received -5''"
    by (simp add: string_defs)
  have d: "cashAmount (js ''received 0'') = None"
    by (simp add: string_defs amount_defs)
  have na: "js ''received 50 dollars'' \<noteq> []"
    and nb: "received_rupee \<noteq> []"
    and nc: "js ''received -5'' \<noteq> []"
    by (simp_all add: js_def received_rupee_def)
  show ?thesis
    using parseVoiceCommand_en_lower [OF na a, of i18n_language products]
      parseVoiceCommand_en_lower [OF nb b, of i18n_language products]
      parseVoiceCommand_en_lower [OF nc c, of i18n_language products] d
    by (simp add: classify_en_received_50 classify_en_received_rupee
        classify_en_received_minus_5)
qed

text \<open>The counterexample of C3: "received -5" has the amount 5 attached.\<close>

theorem received_minus_five_sets_amount:
  "parseVoiceCommand None [] (js ''received -5'') (Some (js ''en'')) =
     Inr (Some ((command Cash_amount)\<lparr>amount := Some 5, action := Some set_cash_amount\<rparr>))"
proof -
  have c: "trim (toLowerCase (js ''received -5'')) = js ''received -5''"
    by (simp add: string_defs)
  have nc: "js ''received -5'' \<noteq> []"
    by (simp add: js_def)
  show ?thesis
    using parseVoiceCommand_en_lower [OF nc c, of None "[]"]
    by (simp add: classify_en_received_minus_5)
qed

text \<open>
  C4. Amended: for every transcript of whitespace characters only, the parser returns
  \<^verbatim>\<open>unknown\<close>; its action is \<^verbatim>\<open>empty_transcript\<close> when the transcript is not
  empty, and \<^verbatim>\<open>invalid_input\<close> for the empty string, which the first guard
  \<^verbatim>\<open>!transcript\<close> catches.
\<close>

theorem blank_transcript_is_unknown:
  assumes "\<forall>c \<in> set transcript. isWhiteSpace c"
  shows "parseVoiceCommand i18n_language products transcript language =
           Inr (Some ((command Unknown)
             \<lparr>action := Some (if transcript = [] then invalid_input else empty_transcript)\<rparr>))"
proof -
  have "trim (toLowerCase transcript) = []"
    using assms by (simp add: toLowerCase_blank trim_blank)
  then show ?thesis by (simp add: parseVoiceCommand_def)
qed

text \<open>The witness of C4: a space, a tab and a space.\<close>

theorem blank_transcript_is_unknown_witness:
  "list_all isWhiteSpace [32, 9, 32] \<and>
   parseVoiceCommand None [] [32, 9, 32] (Some (js ''en'')) =
     Inr (Some ((command Unknown)\<lparr>action := Some empty_transcript\<rparr>))"
  using blank_transcript_is_unknown [of "[32, 9, 32]" None "[]" "Some (js ''en'')"]
  by (simp add: isWhiteSpace_def)

text \<open>The counterexample of C4: the empty string yields \<^verbatim>\<open>invalid_input\<close>.\<close>

theorem empty_transcript_is_invalid_input:
  "parseVoiceCommand None [] [] (Some (js ''en'')) =
     Inr (Some ((command Unknown)\<lparr>action := Some invalid_input\<rparr>))"
  by (simp add: parseVoiceCommand_def)

text \<open>
  C5. The claim gives the order of the search for the quantity: a number word of the
  language first, and the first run of digits only if no number word is found. The
  source says the same in its comment (\<^verbatim>\<open>// If no language number found, check for digits\<close>)
  but tests \<^verbatim>\<open>quantity === 1\<close>, which also holds when the number word found is the
  word for 1. For "one 2 liter pepsi" in English the word "one" is found and the
  quantity returned is nevertheless 2, read from the digits. The other parts of the claim
  hold on the model: the quantity lies between 1 and 100 (\<open>extractQuantity_range\<close>), a
  number word above 1 decides it (\<open>extractQuantity_word\<close>), the digits decide it when
  there is no number word (\<open>extractQuantity_digits\<close>, \<open>extractQuantity_500\<close>), and it is
  1 when there is neither (\<open>extractQuantity_default\<close>).
\<close>

theorem number_word_one_yields_to_digits:
  "parseVoiceCommand i18n_language [pepsi] (js ''one 2 liter pepsi'') (Some (js ''en'')) =
     Inr (Some ((command Add)\<lparr>product := Some pepsi, quantity := Some 2\<rparr>))"
proof -
  have ne: "js ''one 2 liter pepsi'' \<noteq> []"
    by (simp add: js_def)
  show ?thesis
    using parseVoiceCommand_en_lower [OF ne pepsi_nt, of i18n_language "[pepsi]"]
    by (simp add: pepsi_classify)
qed






text \<open>
  C8. Amended: for every language with a keyword table and every transcript whose
  lower-cased, trimmed text contains a checkout keyword and a cash keyword of that
  language, the parser returns \<^verbatim>\<open>checkout\<close>, unless the text also contains a
  clear keyword of the language, which is tested first: then it returns \<^verbatim>\<open>clear\<close>.
  In neither case is the result the payment method cash. A transcript that contains a
  keyword of the table contains it after lower-casing and trimming as well
  (\<open>containsAny_normalized\<close>), so the statement covers every transcript that
  contains the two literals.
\<close>

theorem checkout_before_cash:
  assumes "getCommandKeywords (languageOr language i18n_language) = Some kw"
    and "containsAny (trim (toLowerCase transcript)) (checkout kw)"
    and "containsAny (trim (toLowerCase transcript)) (cash kw)"
  shows "parseVoiceCommand i18n_language products transcript language =
           Inr (Some (if containsAny (trim (toLowerCase transcript)) (clear kw)
                      then (command Clear)\<lparr>action := Some clear_cart\<rparr>
                      else (command Checkout)\<lparr>action := Some open_payment\<rparr>))"
proof -
  let ?nt = "trim (toLowerCase transcript)"
  have nt: "?nt \<noteq> []"
    using assms(2) containsAny_Nil [OF checkout_nonempty [OF assms(1)]] by auto
  then have "transcript \<noteq> []"
    by (auto simp: toLowerCase_def trim_def)
  from parseVoiceCommand_classify [OF this refl nt assms(1)]
  show ?thesis using assms(2) by (simp add: classify_def)
qed

text \<open>The witness of C8: "Checkout, cash" in English.\<close>

theorem checkout_before_cash_witness:
  "getCommandKeywords (languageOr (Some (js ''en'')) None) = Some keywords_en \<and>
   containsAny (trim (toLowerCase (js ''Checkout, cash''))) (checkout keywords_en) \<and>
   containsAny (trim (toLowerCase (js ''Checkout, cash''))) (cash keywords_en) \<and>
   parseVoiceCommand None [] (js ''Checkout, cash'') (Some (js ''en'')) =
     Inr (Some ((command Checkout)\<lparr>action := Some open_payment\<rparr>))"
proof -
  have nt: "trim (toLowerCase (js ''Checkout, cash'')) = js ''checkout, cash''"
    by (simp add: string_defs)
  have kw: "getCommandKeywords (languageOr (Some (js ''en'')) None) = Some keywords_en"
    by (simp add: languageOr_en getCommandKeywords_en)
  have a: "containsAny (js ''checkout, cash'') (checkout keywords_en)"
    by (simp add: containsAny_def keywords_en_units js_def)
  have b: "containsAny (js ''checkout, cash'') (cash keywords_en)"
    by (simp add: containsAny_def keywords_en_units js_def)
  have c: "\<not> containsAny (js ''checkout, cash'') (clear keywords_en)"
    by (simp add: containsAny_def keywords_en_units js_def)
  from checkout_before_cash [OF kw, of "js ''Checkout, cash''" "[]"] a b c kw nt
  show ?thesis by simp
qed

text \<open>The counterexample of C8: a transcript with the checkout keyword "checkout", the
  cash keyword "cash" and the clear keyword "clear cart" is classified as
  \<^verbatim>\<open>clear\<close>.\<close>

theorem clear_before_checkout:
  "parseVoiceCommand None [] (js ''clear cart and checkout with cash'') (Some (js ''en'')) =
     Inr (Some ((command Clear)\<lparr>action := Some clear_cart\<rparr>))"
proof -
  have nt: "trim (toLowerCase (js ''clear cart and checkout with cash'')) =
              js ''clear cart and checkout with cash''"
    by (simp add: string_defs)
  have "classify None [] keywords_en (js ''en'') (js ''clear cart and checkout with cash'') =
          (command Clear)\<lparr>action := Some clear_cart\<rparr>"
    by (simp add: classify_def containsAny_def keywords_en_units js_def)
  with parseVoiceCommand_en [OF _ nt, of None "[]"] show ?thesis
    by (simp add: js_def)
qed

text \<open>
  C9. A function of the model is a function: equal arguments give equal results. What
  the claim adds is that nothing but the transcript, the language code and the catalog
  is read. The source reads one more thing, the ambient \<^verbatim>\<open>i18n.language\<close>, in
  \<^verbatim>\<open>language || i18n.language || 'en'\<close>: by the parser when the language is omitted
  or empty, and by \<^verbatim>\<open>getProductNameInLanguage\<close> when the primary subtag of the
  language code (the part before the first hyphen) is empty. Amended: for every
  language code with a non-empty primary subtag, the result is the same whatever the
  ambient language is.
\<close>

theorem result_independent_of_ambient_language:
  assumes "splitFirst 45 language \<noteq> []"
  shows "parseVoiceCommand i18n_language products transcript (Some language) =
         parseVoiceCommand i18n_language' products transcript (Some language)"
proof -
  have l: "languageOr (Some language) i18n_language = language"
    "languageOr (Some language) i18n_language' = language"
    using splitFirst_nonempty [OF assms] by (simp_all add: languageOr_Some)
  show ?thesis
    unfolding parseVoiceCommand_def l Let_def
      classify_given [OF assms, of i18n_language _ _ _ i18n_language']
    by (rule refl)
qed

text \<open>The witness of C9: the language code "hi-IN", with and without an ambient language.\<close>

theorem result_independent_of_ambient_language_witness:
  "splitFirst 45 (js ''hi-IN'') \<noteq> [] \<and>
   parseVoiceCommand (Some (js ''en'')) [] bill_hi (Some (js ''hi-IN'')) =
   parseVoiceCommand None [] bill_hi (Some (js ''hi-IN''))"
proof -
  have h: "splitFirst 45 (js ''hi-IN'') \<noteq> []"
    by (simp add: splitFirst_def js_def)
  from result_independent_of_ambient_language [OF h, of "Some (js ''en'')" "[]" bill_hi None] h
  show ?thesis by simp
qed

text \<open>The counterexample of C9, in two parts. With the language omitted and the empty
  catalog, the Hindi checkout keyword gives \<^verbatim>\<open>checkout\<close> when the ambient language is
  "hi" and \<^verbatim>\<open>unknown\<close> when it is "en". With the language code "-IN", whose primary
  subtag is empty, and a catalog of two products, the transcript "besan" adds the first
  product when the ambient language is "hi" and the second when it is "en".\<close>

theorem omitted_language_reads_ambient_language:
  "parseVoiceCommand (Some (js ''hi'')) [] bill_hi None =
     Inr (Some ((command Checkout)\<lparr>action := Some open_payment\<rparr>)) \<and>
   parseVoiceCommand (Some (js ''en'')) [] bill_hi None =
     Inr (Some ((command Unknown)\<lparr>action := Some product_not_found\<rparr>)) \<and>
   parseVoiceCommand (Some (js ''hi'')) [gram_flour, besan] (js ''besan'') (Some (js ''-IN'')) =
     Inr (Some ((command Add)\<lparr>product := Some gram_flour, quantity := Some 1\<rparr>)) \<and>
   parseVoiceCommand (Some (js ''en'')) [gram_flour, besan] (js ''besan'') (Some (js ''-IN'')) =
     Inr (Some ((command Add)\<lparr>product := Some besan, quantity := Some 1\<rparr>)) \<and>
   gram_flour \<noteq> besan"
proof -
  have nt: "trim (toLowerCase bill_hi) = bill_hi" and ne: "bill_hi \<noteq> []"
    by (simp_all add: string_defs bill_hi_def)
  have hi: "getCommandKeywords (languageOr None (Some (js ''hi''))) = Some keywords_hi"
    by (simp add: languageOr_def getCommandKeywords_def splitFirst_def js_def)
  have en: "getCommandKeywords (languageOr None (Some (js ''en''))) = Some keywords_en"
    by (simp add: languageOr_def getCommandKeywords_def splitFirst_def js_def)
  have a: "classify (Some (js ''hi'')) [] keywords_hi (languageOr None (Some (js ''hi''))) bill_hi =
             (command Checkout)\<lparr>action := Some open_payment\<rparr>"
    by (simp add: classify_def containsAny_def keywords_hi_def bill_hi_def)
  have b: "classify (Some (js ''en'')) [] keywords_en (languageOr None (Some (js ''en''))) bill_hi =
             (command Unknown)\<lparr>action := Some product_not_found\<rparr>"
    by (simp add: classify_def containsAny_def keywords_en_units bill_hi_def cashAmount_first
        addCommand_empty findProductByName_empty)
  have kw: "getCommandKeywords (languageOr (Some (js ''-IN'')) g) = Some keywords_en" for g
    by (simp add: besan_language)
  have c: "parseVoiceCommand g ps (js ''besan'') (Some (js ''-IN'')) =
             Inr (Some (classify g ps keywords_en (js ''-IN'') (js ''besan'')))" for g ps
    using parseVoiceCommand_classify [OF besan_text(2) besan_text(1) besan_text(2) kw, of g ps]
    by (simp add: besan_language)
  have d: "gram_flour \<noteq> besan"
    by (simp add: gram_flour_def besan_def js_def)
  show ?thesis
    using parseVoiceCommand_classify [OF ne nt ne hi, of "[]"]
      parseVoiceCommand_classify [OF ne nt ne en, of "[]"] d
    by (simp add: a b c besan_classify besan_found)
qed

text \<open>
  C10. The parser is said to return an object for every transcript and language code
  and never to throw. The keyword tables are the properties of an object literal, and
  \<^verbatim>\<open>keywords[baseLang] || keywords.en\<close> also finds the properties inherited from
  \<^verbatim>\<open>Object.prototype\<close>: for the language code "constructor" the value is a function,
  its \<^verbatim>\<open>clear\<close> is \<^verbatim>\<open>undefined\<close>, and the first \<^verbatim>\<open>containsAny\<close> throws a
  \<^verbatim>\<open>TypeError\<close>. The parser throws exactly when the transcript is not blank and
  the primary subtag of the language is one of these inherited keys
  (\<open>parseVoiceCommand_throws\<close>); in every other case it returns an object
  (\<open>parseVoiceCommand_returns\<close>), and the regular expressions it builds from
  keywords are literal patterns (\<open>keywords_literal\<close>, \<open>units_literal\<close>,
  \<open>quantityText_literal\<close>).
\<close>

theorem inherited_key_throws:
  "parseVoiceCommand i18n_language products (js ''hello'') (Some (js ''constructor'')) =
     Inl TypeError"
proof -
  have l: "languageOr (Some (js ''constructor'')) i18n_language = js ''constructor''"
    by (rule languageOr_Some) (simp add: js_def)
  have k: "getCommandKeywords (js ''constructor'') = None"
    by (simp add: getCommandKeywords_def inheritedKeys_def splitFirst_def js_def)
  have t: "trim (toLowerCase (js ''hello'')) = js ''hello''"
    by (simp add: string_defs)
  show ?thesis
    by (simp add: parseVoiceCommand_def l k t) (simp add: js_def)
qed
end
